theory Spec2Isabelle
  imports Complex_Main
begin

section \<open>Exceptions\<close>

text \<open>
  Python exceptions that the modelled code raises or passes on, as values. The string is
  the message. \<open>OtherError\<close> stands for any exception raised by a caller-supplied body or
  by the database driver.
\<close>

datatype exn =
    ValueError string
  | RuntimeError string
  | ResponseError string
  | ConfigurationError string
  | OtherError string

section \<open>The distributed lock (etl/utils/distributed\_lock.py)\<close>

subsection \<open>The lock store\<close>

text \<open>
  The store is a Redis server: a map from key to (value, instant of expiry), read against a
  clock. A key whose expiry instant has been reached no longer exists. Every command the
  client sends is recorded in \<open>issued\<close>, so that a statement about which calls a
  function makes can be read off the state.
\<close>

datatype command =
    SetNxEx string string int
  | EvalCompareDelete string string

type_synonym entries = "string \<rightharpoonup> (string \<times> int)"

record redis =
  clock :: int
  entries :: entries
  issued :: "command list"

definition redis_get :: "redis \<Rightarrow> string \<Rightarrow> string option" where
  "redis_get w k =
     (case entries w k of
        None \<Rightarrow> None
      | Some (v, expiry) \<Rightarrow> if clock w < expiry then Some v else None)"

text \<open>
  \<open>SET k v NX EX ttl\<close>: set if absent, with expiry. The server rejects an expiry that
  is not positive; the client raises that as a \<open>ResponseError\<close>.
\<close>

definition redis_set_nx_ex :: "string \<Rightarrow> string \<Rightarrow> int \<Rightarrow> redis \<Rightarrow> (exn + bool) \<times> redis" where
  "redis_set_nx_ex k v ttl w =
     (let w1 = w\<lparr>issued := issued w @ [SetNxEx k v ttl]\<rparr> in
      if ttl \<le> 0 then (Inl (ResponseError ''invalid expire time in set''), w1)
      else if redis_get w k = None
        then (Inr True, w1\<lparr>entries := (entries w)(k \<mapsto> (v, clock w + ttl))\<rparr>)
        else (Inr False, w1))"

text \<open>
  The script of \<open>release\<close>, run atomically by the server:
  \<^verbatim>\<open>if redis.call("get", KEYS[1]) == ARGV[1] then return redis.call("del", KEYS[1]) else return 0 end\<close>
\<close>

definition redis_eval_compare_delete :: "string \<Rightarrow> string \<Rightarrow> redis \<Rightarrow> int \<times> redis" where
  "redis_eval_compare_delete k v w =
     (let w1 = w\<lparr>issued := issued w @ [EvalCompareDelete k v]\<rparr> in
      if redis_get w k = Some v
        then (1, w1\<lparr>entries := (entries w)(k := None)\<rparr>)
        else (0, w1))"

text \<open>
  \<open>time.sleep d\<close> raises \<open>ValueError\<close> on a negative duration. Otherwise the clock
  advances by \<open>d\<close>, and the other clients of the store act meanwhile: \<open>env t\<close> is what
  they have done to the entries by the instant \<open>t\<close>.
\<close>

definition sleep :: "(int \<Rightarrow> entries \<Rightarrow> entries) \<Rightarrow> int \<Rightarrow> redis \<Rightarrow> (exn + unit) \<times> redis" where
  "sleep env d w =
     (if d < 0 then (Inl (ValueError ''sleep length must be non-negative''), w)
      else (Inr (), w\<lparr>clock := clock w + d, entries := env (clock w + d) (entries w)\<rparr>))"

subsection \<open>The lock handle\<close>

record lock_handle =
  lock_name :: string
  timeout :: int
  retry_interval :: int
  lock_id :: string

text \<open>The constructor; the fresh uuid is an argument.\<close>

definition new_lock :: "string \<Rightarrow> int \<Rightarrow> int \<Rightarrow> string \<Rightarrow> lock_handle" where
  "new_lock name tmo ri uuid =
     \<lparr>lock_name = ''etl:lock:'' @ name, timeout = tmo, retry_interval = ri, lock_id = uuid\<rparr>"

text \<open>\<open>max_wait = timeout or self.timeout\<close>: \<open>None\<close> and \<open>0\<close> are both falsy.\<close>

definition max_wait_of :: "int option \<Rightarrow> lock_handle \<Rightarrow> int" where
  "max_wait_of tmo h =
     (case tmo of None \<Rightarrow> timeout h | Some t \<Rightarrow> if t = 0 then timeout h else t)"

text \<open>
  The \<open>while True\<close> loop of \<open>acquire\<close>. It has no bound of its own, so it is a partial
  function: \<open>None\<close> is the loop that never returns.
\<close>

partial_function (option) acquire_loop ::
  "(int \<Rightarrow> entries \<Rightarrow> entries) \<Rightarrow> lock_handle \<Rightarrow> bool \<Rightarrow> int \<Rightarrow> int \<Rightarrow> redis
     \<Rightarrow> ((exn + bool) \<times> redis) option" where
  "acquire_loop env h blocking start_time max_wait w =
     (case redis_set_nx_ex (lock_name h) (lock_id h) (timeout h) w of
        (Inl e, w1) \<Rightarrow> Some (Inl e, w1)
      | (Inr acquired, w1) \<Rightarrow>
          if acquired then Some (Inr True, w1)
          else if \<not> blocking then Some (Inr False, w1)
          else if clock w1 - start_time \<ge> max_wait then Some (Inr False, w1)
          else (case sleep env (retry_interval h) w1 of
                  (Inl e, w2) \<Rightarrow> Some (Inl e, w2)
                | (Inr _, w2) \<Rightarrow> acquire_loop env h blocking start_time max_wait w2))"

declare acquire_loop.simps [code]

definition acquire ::
  "(int \<Rightarrow> entries \<Rightarrow> entries) \<Rightarrow> lock_handle \<Rightarrow> bool \<Rightarrow> int option \<Rightarrow> redis
     \<Rightarrow> ((exn + bool) \<times> redis) option" where
  "acquire env h blocking tmo w =
     acquire_loop env h blocking (clock w) (max_wait_of tmo h) w"

definition release :: "lock_handle \<Rightarrow> redis \<Rightarrow> bool \<times> redis" where
  "release h w =
     (let (released, w1) = redis_eval_compare_delete (lock_name h) (lock_id h) w
      in (released \<noteq> 0, w1))"

text \<open>
  \<open>context\<close>, the generator-based context manager, together with the \<open>with\<close> block
  that uses it: \<open>body\<close> is the enclosed block, which returns a value or raises.
\<close>

definition lock_context ::
  "(int \<Rightarrow> entries \<Rightarrow> entries) \<Rightarrow> lock_handle \<Rightarrow> bool \<Rightarrow> int option
     \<Rightarrow> (redis \<Rightarrow> (exn + 'a) \<times> redis) \<Rightarrow> redis \<Rightarrow> ((exn + 'a) \<times> redis) option" where
  "lock_context env h blocking tmo body w =
     (case acquire env h blocking tmo w of
        None \<Rightarrow> None
      | Some (Inl e, w1) \<Rightarrow> Some (Inl e, w1)
      | Some (Inr acquired, w1) \<Rightarrow>
          if \<not> acquired
            then Some (Inl (RuntimeError (''Failed to acquire lock: '' @ lock_name h)), w1)
          else (let (r, w2) = body w1;
                    (_, w3) = release h w2
                in Some (r, w3)))"

text \<open>The plain protocol: \<open>__enter__\<close> drops what \<open>acquire\<close> returns.\<close>

definition lock_enter ::
  "(int \<Rightarrow> entries \<Rightarrow> entries) \<Rightarrow> lock_handle \<Rightarrow> redis \<Rightarrow> ((exn + unit) \<times> redis) option" where
  "lock_enter env h w =
     (case acquire env h True None w of
        None \<Rightarrow> None
      | Some (Inl e, w1) \<Rightarrow> Some (Inl e, w1)
      | Some (Inr _, w1) \<Rightarrow> Some (Inr (), w1))"

definition lock_exit :: "lock_handle \<Rightarrow> redis \<Rightarrow> bool \<times> redis" where
  "lock_exit h w = (let (_, w1) = release h w in (False, w1))"

text \<open>
  \<open>with lock: body\<close>. An exception of the body is swallowed only when \<open>__exit__\<close>
  returns a true value; the block then yields no value (\<open>None\<close>).
\<close>

definition with_lock ::
  "(int \<Rightarrow> entries \<Rightarrow> entries) \<Rightarrow> lock_handle \<Rightarrow> (redis \<Rightarrow> (exn + 'a) \<times> redis) \<Rightarrow> redis
     \<Rightarrow> ((exn + 'a option) \<times> redis) option" where
  "with_lock env h body w =
     (case lock_enter env h w of
        None \<Rightarrow> None
      | Some (Inl e, w1) \<Rightarrow> Some (Inl e, w1)
      | Some (Inr _, w1) \<Rightarrow>
          (let (r, w2) = body w1;
               (suppress, w3) = lock_exit h w2
           in Some (case r of
                      Inl e \<Rightarrow> if suppress then Inr None else Inl e
                    | Inr v \<Rightarrow> Inr (Some v), w3)))"

text \<open>The command that every attempt of \<open>acquire\<close> sends.\<close>

definition attempt_cmd :: "lock_handle \<Rightarrow> command" where
  "attempt_cmd h = SetNxEx (lock_name h) (lock_id h) (timeout h)"

subsection \<open>Concrete stores and handles\<close>

text \<open>
  Two handles \<open>A\<close> and \<open>B\<close> on the lock \<open>t\<close>, lease 5, retry interval 1; an empty
  store; a store in which \<open>B\<close> holds the lock until instant 100; and \<open>no_others\<close>, the
  environment in which no other client touches the store.
\<close>

definition no_others :: "int \<Rightarrow> entries \<Rightarrow> entries" where
  "no_others t e = e"

definition handle_A :: lock_handle where
  "handle_A = new_lock ''t'' 5 1 ''A''"

definition handle_B :: lock_handle where
  "handle_B = new_lock ''t'' 5 1 ''B''"

definition store_empty :: redis where
  "store_empty = \<lparr>clock = 0, entries = Map.empty, issued = []\<rparr>"

definition store_held_by_B :: redis where
  "store_held_by_B = \<lparr>clock = 0, entries = [''etl:lock:t'' \<mapsto> (''B'', 100)], issued = []\<rparr>"

text \<open>
  \<open>A\<close> acquired at instant 0 (\<open>store_A_acquired\<close>), its lease ran out at 5, and at
  instant 10 \<open>B\<close> acquired the lock (\<open>store_B_reacquired\<close>).
\<close>

definition store_A_acquired :: redis where
  "store_A_acquired =
     \<lparr>clock = 0, entries = [''etl:lock:t'' \<mapsto> (''A'', 5)],
      issued = [SetNxEx ''etl:lock:t'' ''A'' 5]\<rparr>"

definition store_B_reacquired :: redis where
  "store_B_reacquired =
     \<lparr>clock = 10, entries = [''etl:lock:t'' \<mapsto> (''B'', 15)],
      issued = [SetNxEx ''etl:lock:t'' ''A'' 5, SetNxEx ''etl:lock:t'' ''B'' 5]\<rparr>"

text \<open>A body that raises, and one that returns.\<close>

definition body_raises :: "redis \<Rightarrow> (exn + nat) \<times> redis" where
  "body_raises w = (Inl (OtherError ''boom''), w)"

definition body_returns :: "redis \<Rightarrow> (exn + nat) \<times> redis" where
  "body_returns w = (Inr 7, w)"

section \<open>The validation engine (etl/validators)\<close>

subsection \<open>Datasets\<close>

text \<open>
  A dataset is a pandas DataFrame: a row count and an ordered list of named columns, each
  with its dtype (as \<open>str(dtype)\<close> prints it) and its cells; \<open>None\<close> is a null cell (NaN).
  The values of the cells are of one ordered type \<open>'v\<close>, so that a range rule compares
  like with like. What the code asks of pandas beyond counting and comparing is a
  parameter of the model: the string form of a cell (\<open>astype(str)\<close>), the regular
  expression match, and whether a column or a single value parses as a date in a format.
\<close>

record 'v column =
  cname :: string
  dtype :: string
  cells :: "'v option list"

record 'v dataframe =
  nrows :: nat
  columns :: "'v column list"

record 'v pandas =
  astype_str :: "'v option \<Rightarrow> string"
  str_match :: "string \<Rightarrow> string \<Rightarrow> bool"
  to_datetime_column :: "string \<Rightarrow> 'v option list \<Rightarrow> bool"
  to_datetime_value :: "string \<Rightarrow> 'v option \<Rightarrow> bool"

definition column_names :: "'v dataframe \<Rightarrow> string list" where
  "column_names df = map cname (columns df)"

text \<open>\<open>df[column]\<close>, for a name that the caller has tested with \<open>column in df.columns\<close>.\<close>

definition get_column :: "'v dataframe \<Rightarrow> string \<Rightarrow> 'v column option" where
  "get_column df c = find (\<lambda>k. cname k = c) (columns df)"

definition null_count :: "'v column \<Rightarrow> nat" where
  "null_count c = length (filter (\<lambda>x. x = None) (cells c))"

text \<open>The number of \<open>False\<close> entries of a boolean mask: the rows that \<open>~mask\<close> selects.\<close>

definition count_false :: "bool list \<Rightarrow> nat" where
  "count_false bs = length (filter (\<lambda>b. \<not> b) bs)"

text \<open>\<open>Series.unique\<close>: the distinct values in order of first appearance.\<close>

definition unique :: "'a list \<Rightarrow> 'a list" where
  "unique xs = rev (remdups (rev xs))"

subsection \<open>Strings\<close>

text \<open>\<open>str\<close> of a Python integer.\<close>

fun str_nat :: "nat \<Rightarrow> string" where
  "str_nat n = (if n < 10 then [''0123456789'' ! n]
                else str_nat (n div 10) @ [''0123456789'' ! (n mod 10)])"

definition str_int :: "int \<Rightarrow> string" where
  "str_int i = (if i < 0 then ''-'' @ str_nat (nat (- i)) else str_nat (nat i))"

text \<open>\<open>str.lower\<close> on the ASCII letters, which is all that dtype names contain.\<close>

definition lower_char :: "char \<Rightarrow> char" where
  "lower_char c =
     (case map_of (zip ''ABCDEFGHIJKLMNOPQRSTUVWXYZ'' ''abcdefghijklmnopqrstuvwxyz'') c of
        None \<Rightarrow> c
      | Some l \<Rightarrow> l)"

definition lower :: "string \<Rightarrow> string" where
  "lower s = map lower_char s"

fun starts_with :: "string \<Rightarrow> string \<Rightarrow> bool" where
  "starts_with s [] = True"
| "starts_with [] (p # ps) = False"
| "starts_with (c # cs) (p # ps) = (c = p \<and> starts_with cs ps)"

text \<open>\<open>sub in s\<close> on strings.\<close>

fun str_in :: "string \<Rightarrow> string \<Rightarrow> bool" where
  "str_in sub [] = (sub = [])"
| "str_in sub (c # cs) = (starts_with (c # cs) sub \<or> str_in sub cs)"

subsection \<open>Results and the base validator (base.py)\<close>

text \<open>
  One constructor for each kind of entry that a validator appends to \<open>error_details\<close>,
  with the fields of the dictionary. Left out are the \<open>message\<close> texts and the rounded
  floating-point percentages, which repeat the other fields. Of \<open>metadata\<close> the
  integer entries are kept, a flag as 0 or 1.
\<close>

datatype 'v detail =
    MinRowCount int nat
  | RequiredColumns "string set"
  | NullThreshold "(string \<times> nat \<times> rat) list"
  | ValueRange string 'v 'v int "'v option list"
  | CategoricalValues string "'v option list" int "'v option list"
  | RegexPattern string string int "'v option list"
  | CustomRule string string int
  | DataType string string string
  | Uniqueness string int
  | DateFormat string string int
  | CrossField string string int
  | MissingColumns "string set"
  | ExtraColumns "string set"
  | Nullability string nat
  | SchemaDataType string string string

record 'v validation_result =
  validator_name :: string
  validation_type :: string
  passed :: bool
  passed_records :: int
  failed_records :: int
  total_records :: int
  error_details :: "'v detail list"
  metadata :: "(string \<times> int) list"

text \<open>
  What the validators write to the log: the summary of \<open>log_result\<close> (validator, kind,
  passed and failed counts, and the number of error entries when the result failed; the
  success rate, a formatted floating-point number, is left out), and the two messages for a
  caller-supplied predicate that raised.
\<close>

datatype log_entry =
    ValidationPassed string string int int
  | ValidationFailed string string int int nat
  | CustomRuleError string exn
  | CrossFieldValidationError string string exn

record validator =
  name :: string
  strict_mode :: bool

definition log_result :: "'v validation_result \<Rightarrow> log_entry" where
  "log_result result =
     (if passed result
      then ValidationPassed (validator_name result) (validation_type result)
             (passed_records result) (failed_records result)
      else ValidationFailed (validator_name result) (validation_type result)
             (passed_records result) (failed_records result) (length (error_details result)))"

definition raise_if_failed :: "validator \<Rightarrow> 'v validation_result \<Rightarrow> exn + unit" where
  "raise_if_failed self result =
     (if strict_mode self \<and> \<not> passed result
      then Inl (ValueError
             (''Validation failed: '' @ validator_name result @ '' - '' @ validation_type result
              @ ''. Failed records: '' @ str_int (failed_records result) @ ''/''
              @ str_int (total_records result)))
      else Inr ())"

text \<open>
  The three lines that end every \<open>validate\<close>:
  \<open>self.log_result(result); self.raise_if_failed(result); return result\<close>.
  A call yields the log it wrote and either the exception or the result.
\<close>

definition log_raise_return ::
  "validator \<Rightarrow> log_entry list \<Rightarrow> 'v validation_result
     \<Rightarrow> log_entry list \<times> (exn + 'v validation_result)" where
  "log_raise_return self logs result =
     (logs @ [log_result result],
      case raise_if_failed self result of Inl e \<Rightarrow> Inl e | Inr _ \<Rightarrow> Inr result)"

subsection \<open>Completeness (completeness.py)\<close>

definition CompletenessValidator :: "bool \<Rightarrow> validator" where
  "CompletenessValidator strict = \<lparr>name = ''completeness_validator'', strict_mode = strict\<rparr>"

definition null_percentage :: "'v dataframe \<Rightarrow> 'v column \<Rightarrow> rat" where
  "null_percentage df c =
     (if nrows df > 0 then (of_nat (null_count c) / of_nat (nrows df)) * 100 else 0)"

text \<open>
  The body of \<open>validate\<close> up to the construction of the result. \<open>passed\<close> is a variable
  of its own, set to false beside every append.
\<close>

definition completeness_result ::
  "validator \<Rightarrow> 'v dataframe \<Rightarrow> string list \<Rightarrow> rat \<Rightarrow> int \<Rightarrow> 'v validation_result" where
  "completeness_result self df required_columns null_threshold min_row_count =
     (let error_details = [];
          passed = True;
          (error_details, passed) =
            (if int (nrows df) < min_row_count
             then (error_details @ [MinRowCount min_row_count (nrows df)], False)
             else (error_details, passed));
          missing_columns = set required_columns - set (column_names df);
          (error_details, passed) =
            (if missing_columns \<noteq> {}
             then (error_details @ [RequiredColumns missing_columns], False)
             else (error_details, passed));
          null_violations =
            map (\<lambda>c. (cname c, null_count c, null_threshold))
              (filter (\<lambda>c. null_percentage df c > null_threshold) (columns df));
          (error_details, passed) =
            (if null_violations \<noteq> []
             then (error_details @ [NullThreshold null_violations], False)
             else (error_details, passed));
          total_cells =
            (if length (columns df) > 0 then int (nrows df) * int (length (columns df)) else 0);
          null_cells = int (sum_list (map null_count (columns df)));
          complete_cells = total_cells - null_cells
      in \<lparr>validator_name = name self,
          validation_type = ''completeness'',
          passed = passed,
          passed_records = complete_cells,
          failed_records = null_cells,
          total_records = total_cells,
          error_details = error_details,
          metadata = [(''row_count'', int (nrows df)),
                      (''column_count'', int (length (columns df)))]\<rparr>)"

definition completeness_validate ::
  "validator \<Rightarrow> 'v dataframe \<Rightarrow> string list \<Rightarrow> rat \<Rightarrow> int
     \<Rightarrow> log_entry list \<times> (exn + 'v validation_result)" where
  "completeness_validate self df required_columns null_threshold min_row_count =
     log_raise_return self []
       (completeness_result self df required_columns null_threshold min_row_count)"

subsection \<open>Accuracy (accuracy.py)\<close>

definition AccuracyValidator :: "bool \<Rightarrow> validator" where
  "AccuracyValidator strict = \<lparr>name = ''accuracy_validator'', strict_mode = strict\<rparr>"

text \<open>
  The state of the four loops: \<open>error_details\<close>, \<open>passed_count\<close>, \<open>failed_count\<close>.
  Each rule dictionary is the list of its items in insertion order, and each loop is a
  \<open>fold\<close> of its body over that list.
\<close>

type_synonym 'v counts = "'v detail list \<times> int \<times> int"

definition value_range_step ::
  "('v::linorder) dataframe \<Rightarrow> string \<times> 'v \<times> 'v \<Rightarrow> 'v counts \<Rightarrow> 'v counts" where
  "value_range_step df rule st =
     (let (column, min_val, max_val) = rule;
          (error_details, passed_count, failed_count) = st
      in case get_column df column of
           None \<Rightarrow> (error_details, passed_count, failed_count)
         | Some col \<Rightarrow>
             (let violations =
                    filter (\<lambda>x. case x of None \<Rightarrow> False | Some v \<Rightarrow> v < min_val \<or> v > max_val)
                      (cells col);
                  n = int (length violations);
                  (error_details, failed_count) =
                    (if n > 0
                     then (error_details @ [ValueRange column min_val max_val n (take 5 violations)],
                           failed_count + n)
                     else (error_details, failed_count))
              in (error_details, passed_count + (int (nrows df) - n), failed_count)))"

definition categorical_step ::
  "'v dataframe \<Rightarrow> string \<times> 'v option list \<Rightarrow> 'v counts \<Rightarrow> 'v counts" where
  "categorical_step df rule st =
     (let (column, valid_values) = rule;
          (error_details, passed_count, failed_count) = st
      in case get_column df column of
           None \<Rightarrow> (error_details, passed_count, failed_count)
         | Some col \<Rightarrow>
             (let violations = filter (\<lambda>x. x \<notin> set valid_values) (cells col);
                  n = int (length violations);
                  (error_details, failed_count) =
                    (if n > 0
                     then (error_details
                             @ [CategoricalValues column (take 10 valid_values) n
                                  (take 10 (unique violations))],
                           failed_count + n)
                     else (error_details, failed_count))
              in (error_details, passed_count + (int (nrows df) - n), failed_count)))"

definition regex_step ::
  "'v pandas \<Rightarrow> 'v dataframe \<Rightarrow> string \<times> string \<Rightarrow> 'v counts \<Rightarrow> 'v counts" where
  "regex_step pd df rule st =
     (let (column, pattern) = rule;
          (error_details, passed_count, failed_count) = st
      in case get_column df column of
           None \<Rightarrow> (error_details, passed_count, failed_count)
         | Some col \<Rightarrow>
             (let violations =
                    filter (\<lambda>x. \<not> str_match pd pattern (astype_str pd x)) (cells col);
                  n = int (length violations);
                  (error_details, failed_count) =
                    (if n > 0
                     then (error_details @ [RegexPattern column pattern n (take 5 violations)],
                           failed_count + n)
                     else (error_details, failed_count))
              in (error_details, passed_count + (int (nrows df) - n), failed_count)))"

text \<open>
  A custom rule is a caller's function from the column to a boolean mask, with its
  \<open>__name__\<close>; it returns the mask or raises. Indexing the frame with a mask of the wrong
  length raises too. Both happen inside the \<open>try\<close>, before any count is touched, and
  the handler only logs.
\<close>

type_synonym 'v rule_func = "string \<times> ('v option list \<Rightarrow> exn + bool list)"

definition custom_rule_step ::
  "'v dataframe \<Rightarrow> string \<times> 'v rule_func \<Rightarrow> 'v counts \<times> log_entry list
     \<Rightarrow> 'v counts \<times> log_entry list" where
  "custom_rule_step df rule st =
     (let (column, rule_name, rule_func) = rule;
          ((error_details, passed_count, failed_count), logs) = st
      in case get_column df column of
           None \<Rightarrow> ((error_details, passed_count, failed_count), logs)
         | Some col \<Rightarrow>
             (case rule_func (cells col) of
                Inl e \<Rightarrow>
                  ((error_details, passed_count, failed_count), logs @ [CustomRuleError column e])
              | Inr msk \<Rightarrow>
                  if length msk \<noteq> nrows df
                  then ((error_details, passed_count, failed_count),
                        logs @ [CustomRuleError column (OtherError ''Item wrong length'')])
                  else
                    (let n = int (count_false msk);
                         (error_details, failed_count) =
                           (if n > 0
                            then (error_details @ [CustomRule column rule_name n],
                                  failed_count + n)
                            else (error_details, failed_count))
                     in ((error_details, passed_count + (int (nrows df) - n), failed_count),
                         logs))))"

text \<open>The body of \<open>validate\<close> up to the construction of the result, with the log.\<close>

definition accuracy_result ::
  "('v::linorder) pandas \<Rightarrow> validator \<Rightarrow> 'v dataframe \<Rightarrow> (string \<times> 'v \<times> 'v) list
     \<Rightarrow> (string \<times> 'v option list) list \<Rightarrow> (string \<times> string) list
     \<Rightarrow> (string \<times> 'v rule_func) list \<Rightarrow> 'v validation_result \<times> log_entry list" where
  "accuracy_result pd self df value_ranges categorical_values regex_patterns custom_rules =
     (let st = ([], 0, 0);
          st = fold (value_range_step df) value_ranges st;
          st = fold (categorical_step df) categorical_values st;
          st = fold (regex_step pd df) regex_patterns st;
          ((error_details, passed_count, failed_count), logs) =
            fold (custom_rule_step df) custom_rules (st, []);
          total_records = passed_count + failed_count;
          passed = (length error_details = 0)
      in (\<lparr>validator_name = name self,
           validation_type = ''accuracy'',
           passed = passed,
           passed_records = passed_count,
           failed_records = failed_count,
           total_records = total_records,
           error_details = error_details,
           metadata = [(''checks_performed'',
                        int (length value_ranges + length categorical_values
                             + length regex_patterns + length custom_rules))]\<rparr>,
          logs))"

definition accuracy_validate ::
  "('v::linorder) pandas \<Rightarrow> validator \<Rightarrow> 'v dataframe \<Rightarrow> (string \<times> 'v \<times> 'v) list
     \<Rightarrow> (string \<times> 'v option list) list \<Rightarrow> (string \<times> string) list
     \<Rightarrow> (string \<times> 'v rule_func) list \<Rightarrow> log_entry list \<times> (exn + 'v validation_result)" where
  "accuracy_validate pd self df value_ranges categorical_values regex_patterns custom_rules =
     (let (result, logs) =
            accuracy_result pd self df value_ranges categorical_values regex_patterns custom_rules
      in log_raise_return self logs result)"

subsection \<open>Consistency (consistency.py)\<close>

definition ConsistencyValidator :: "bool \<Rightarrow> validator" where
  "ConsistencyValidator strict = \<lparr>name = ''consistency_validator'', strict_mode = strict\<rparr>"

definition data_type_step ::
  "'v dataframe \<Rightarrow> string \<times> string \<Rightarrow> 'v counts \<Rightarrow> 'v counts" where
  "data_type_step df rule st =
     (let (column, expected_dtype) = rule;
          (error_details, passed_count, failed_count) = st
      in case get_column df column of
           None \<Rightarrow> (error_details, passed_count, failed_count)
         | Some col \<Rightarrow>
             if dtype col \<noteq> expected_dtype
             then (error_details @ [DataType column expected_dtype (dtype col)],
                   passed_count, failed_count + int (nrows df))
             else (error_details, passed_count + int (nrows df), failed_count))"

text \<open>\<open>duplicated().sum()\<close>: every occurrence of a value after its first.\<close>

definition duplicated_sum :: "'a list \<Rightarrow> int" where
  "duplicated_sum xs = int (length xs) - int (length (remdups xs))"

definition uniqueness_step :: "'v dataframe \<Rightarrow> string \<Rightarrow> 'v counts \<Rightarrow> 'v counts" where
  "uniqueness_step df column st =
     (let (error_details, passed_count, failed_count) = st
      in case get_column df column of
           None \<Rightarrow> (error_details, passed_count, failed_count)
         | Some col \<Rightarrow>
             (let duplicates = duplicated_sum (cells col)
              in if duplicates > 0
                 then (error_details @ [Uniqueness column duplicates],
                       passed_count + (int (nrows df) - duplicates), failed_count + duplicates)
                 else (error_details, passed_count + int (nrows df), failed_count)))"

text \<open>
  The column is parsed as a whole first; when that raises, the values are parsed one by
  one and those that raise are counted.
\<close>

definition date_format_step ::
  "'v pandas \<Rightarrow> 'v dataframe \<Rightarrow> string \<times> string \<Rightarrow> 'v counts \<Rightarrow> 'v counts" where
  "date_format_step pd df rule st =
     (let (column, date_format) = rule;
          (error_details, passed_count, failed_count) = st
      in case get_column df column of
           None \<Rightarrow> (error_details, passed_count, failed_count)
         | Some col \<Rightarrow>
             if to_datetime_column pd date_format (cells col)
             then (error_details, passed_count + int (nrows df), failed_count)
             else
               (let invalid_dates =
                      int (length (filter (\<lambda>x. \<not> to_datetime_value pd date_format x) (cells col)))
                in if invalid_dates > 0
                   then (error_details @ [DateFormat column date_format invalid_dates],
                         passed_count + (int (nrows df) - invalid_dates),
                         failed_count + invalid_dates)
                   else (error_details, passed_count, failed_count)))"

text \<open>
  A cross-field rule names two columns and a caller's comparison, which returns a boolean
  mask or raises inside the \<open>try\<close>.
\<close>

type_synonym 'v comparison_func = "'v option list \<Rightarrow> 'v option list \<Rightarrow> exn + bool list"

definition cross_field_step ::
  "'v dataframe \<Rightarrow> string \<times> string \<times> 'v comparison_func \<Rightarrow> 'v counts \<times> log_entry list
     \<Rightarrow> 'v counts \<times> log_entry list" where
  "cross_field_step df rule st =
     (let (col1, col2, comparison_func) = rule;
          ((error_details, passed_count, failed_count), logs) = st
      in case (get_column df col1, get_column df col2) of
           (Some c1, Some c2) \<Rightarrow>
             (case comparison_func (cells c1) (cells c2) of
                Inl e \<Rightarrow>
                  ((error_details, passed_count, failed_count),
                   logs @ [CrossFieldValidationError col1 col2 e])
              | Inr msk \<Rightarrow>
                  (let violations = int (count_false msk)
                   in if violations > 0
                      then ((error_details @ [CrossField col1 col2 violations],
                             passed_count + (int (nrows df) - violations),
                             failed_count + violations), logs)
                      else ((error_details, passed_count + int (nrows df), failed_count), logs)))
         | _ \<Rightarrow> ((error_details, passed_count, failed_count), logs))"

definition consistency_result ::
  "'v pandas \<Rightarrow> validator \<Rightarrow> 'v dataframe \<Rightarrow> (string \<times> string) list \<Rightarrow> string list
     \<Rightarrow> (string \<times> string) list \<Rightarrow> (string \<times> string \<times> 'v comparison_func) list
     \<Rightarrow> 'v validation_result \<times> log_entry list" where
  "consistency_result pd self df data_types unique_columns date_formats cross_field_rules =
     (let st = ([], 0, 0);
          st = fold (data_type_step df) data_types st;
          st = fold (uniqueness_step df) unique_columns st;
          st = fold (date_format_step pd df) date_formats st;
          ((error_details, passed_count, failed_count), logs) =
            fold (cross_field_step df) cross_field_rules (st, []);
          total_records = passed_count + failed_count;
          passed = (length error_details = 0)
      in (\<lparr>validator_name = name self,
           validation_type = ''consistency'',
           passed = passed,
           passed_records = passed_count,
           failed_records = failed_count,
           total_records = total_records,
           error_details = error_details,
           metadata = [(''data_type_checks'', int (length data_types)),
                       (''uniqueness_checks'', int (length unique_columns)),
                       (''date_format_checks'', int (length date_formats)),
                       (''cross_field_checks'', int (length cross_field_rules))]\<rparr>,
          logs))"

definition consistency_validate ::
  "'v pandas \<Rightarrow> validator \<Rightarrow> 'v dataframe \<Rightarrow> (string \<times> string) list \<Rightarrow> string list
     \<Rightarrow> (string \<times> string) list \<Rightarrow> (string \<times> string \<times> 'v comparison_func) list
     \<Rightarrow> log_entry list \<times> (exn + 'v validation_result)" where
  "consistency_validate pd self df data_types unique_columns date_formats cross_field_rules =
     (let (result, logs) =
            consistency_result pd self df data_types unique_columns date_formats cross_field_rules
      in log_raise_return self logs result)"

subsection \<open>Schema (schema.py)\<close>

definition SchemaValidator :: "bool \<Rightarrow> validator" where
  "SchemaValidator strict = \<lparr>name = ''schema_validator'', strict_mode = strict\<rparr>"

text \<open>One entry of \<open>expected_schema\<close>; a key that the dictionary lacks is \<open>None\<close>.\<close>

record schema_def =
  stype :: "string option"
  nullable :: "bool option"

definition type_mappings :: "(string \<times> string list) list" where
  "type_mappings =
     [(''int'', [''int64'', ''int32'', ''int16'', ''int8'']),
      (''float'', [''float64'', ''float32'', ''float16'']),
      (''string'', [''object'', ''string'']),
      (''bool'', [''bool'']),
      (''datetime'', [''datetime64'', ''datetime64[ns]''])]"

definition is_type_compatible :: "string \<Rightarrow> string \<Rightarrow> bool" where
  "is_type_compatible actual_type expected_type =
     (case find (\<lambda>(expected, actuals). lower expected_type = expected) type_mappings of
        Some (expected, actuals) \<Rightarrow> list_ex (\<lambda>actual. str_in actual actual_type) actuals
      | None \<Rightarrow> lower actual_type = lower expected_type)"

text \<open>One turn of the loop over \<open>expected_schema.items()\<close>.\<close>

definition schema_column_step ::
  "'v dataframe \<Rightarrow> string \<times> schema_def \<Rightarrow> 'v detail list \<times> bool \<Rightarrow> 'v detail list \<times> bool" where
  "schema_column_step df item st =
     (let (column, sdef) = item;
          (error_details, passed) = st
      in case get_column df column of
           None \<Rightarrow> (error_details, passed)
         | Some col \<Rightarrow>
             (let expected_type = stype sdef;
                  nullable = (case nullable sdef of None \<Rightarrow> True | Some b \<Rightarrow> b);
                  (error_details, passed) =
                    (if \<not> nullable \<and> null_count col > 0
                     then (error_details @ [Nullability column (null_count col)], False)
                     else (error_details, passed))
              in case expected_type of
                   None \<Rightarrow> (error_details, passed)
                 | Some t \<Rightarrow>
                     if t \<noteq> [] \<and> \<not> is_type_compatible (dtype col) t
                     then (error_details @ [SchemaDataType column t (dtype col)], False)
                     else (error_details, passed)))"

definition schema_result ::
  "validator \<Rightarrow> 'v dataframe \<Rightarrow> (string \<times> schema_def) list \<Rightarrow> bool \<Rightarrow> 'v validation_result" where
  "schema_result self df expected_schema allow_extra_columns =
     (let error_details = [];
          passed = True;
          expected_columns = set (map fst expected_schema);
          actual_columns = set (column_names df);
          missing_columns = expected_columns - actual_columns;
          (error_details, passed) =
            (if missing_columns \<noteq> {}
             then (error_details @ [MissingColumns missing_columns], False)
             else (error_details, passed));
          extra_columns = actual_columns - expected_columns;
          (error_details, passed) =
            (if \<not> allow_extra_columns \<and> extra_columns \<noteq> {}
             then (error_details @ [ExtraColumns extra_columns], False)
             else (error_details, passed));
          (error_details, passed) =
            fold (schema_column_step df) expected_schema (error_details, passed)
      in \<lparr>validator_name = name self,
          validation_type = ''schema'',
          passed = passed,
          passed_records = (if passed then int (nrows df) else 0),
          failed_records = (if passed then 0 else int (nrows df)),
          total_records = int (nrows df),
          error_details = error_details,
          metadata = [(''expected_columns'', int (length expected_schema)),
                      (''actual_columns'', int (length (columns df))),
                      (''allow_extra_columns'', if allow_extra_columns then 1 else 0)]\<rparr>)"

definition schema_validate ::
  "validator \<Rightarrow> 'v dataframe \<Rightarrow> (string \<times> schema_def) list \<Rightarrow> bool
     \<Rightarrow> log_entry list \<times> (exn + 'v validation_result)" where
  "schema_validate self df expected_schema allow_extra_columns =
     log_raise_return self [] (schema_result self df expected_schema allow_extra_columns)"

subsection \<open>Concrete datasets and rules\<close>

text \<open>
  Datasets of integers for the examples, and a pandas to run them with: a cell prints as
  its number (\<open>nan\<close> when null), a pattern matches the strings that begin with it, and a
  value parses as a date when it is not null.
\<close>

definition pd_example :: "int pandas" where
  "pd_example =
     \<lparr>astype_str = (\<lambda>x. case x of None \<Rightarrow> ''nan'' | Some i \<Rightarrow> str_int i),
      str_match = (\<lambda>pattern s. starts_with s pattern),
      to_datetime_column = (\<lambda>fmt xs. list_all (\<lambda>x. x \<noteq> None) xs),
      to_datetime_value = (\<lambda>fmt x. x \<noteq> None)\<rparr>"

definition df_empty :: "int dataframe" where
  "df_empty = \<lparr>nrows = 0, columns = []\<rparr>"

definition df_prices :: "int dataframe" where
  "df_prices =
     \<lparr>nrows = 3,
      columns = [\<lparr>cname = ''price'', dtype = ''int64'', cells = [Some 150, Some 500, Some 180]\<rparr>,
                 \<lparr>cname = ''volume'', dtype = ''int64'', cells = [Some 1000, Some 2000, Some 1500]\<rparr>]\<rparr>"

definition df_ids :: "int dataframe" where
  "df_ids =
     \<lparr>nrows = 4,
      columns = [\<lparr>cname = ''id'', dtype = ''int64'', cells = [Some 1, Some 2, Some 2, Some 3]\<rparr>,
                 \<lparr>cname = ''value'', dtype = ''int64'', cells = [Some 100, Some 200, Some 300, Some 400]\<rparr>]\<rparr>"

definition df_one_row :: "int dataframe" where
  "df_one_row =
     \<lparr>nrows = 1,
      columns = [\<lparr>cname = ''price'', dtype = ''int64'', cells = [Some 500]\<rparr>]\<rparr>"

text \<open>A custom rule and a comparison that raise whatever they are given.\<close>

definition raising_rule :: "int option list \<Rightarrow> exn + bool list" where
  "raising_rule xs = Inl (OtherError ''bad rule'')"

definition raising_comparison :: "int comparison_func" where
  "raising_comparison xs ys = Inl (OtherError ''bad comparison'')"

text \<open>What a result reports, its name, kind and metadata apart.\<close>

definition verdict :: "'v validation_result \<Rightarrow> bool \<times> int \<times> int \<times> int \<times> 'v detail list" where
  "verdict r = (passed r, passed_records r, failed_records r, total_records r, error_details r)"

section \<open>The warehouse loader (etl/loaders/warehouse\_loader.py, etl/utils/db\_connection.py)\<close>

subsection \<open>The database driver\<close>

text \<open>
  The database is a parameter: \<open>engine sql args db\<close> runs one statement with its
  arguments and yields the number of rows it affected and the new database, or raises.

  A cursor carries \<open>rowcount\<close> (\<open>-1\<close> before any statement) and the pages of
  argument rows that it has executed. \<open>cursor.execute\<close> on the
  statements of one page, joined into one command, runs them in order and leaves in
  \<open>rowcount\<close> the count of the last statement only; an empty command is refused.
\<close>

type_synonym ('v, 'db) engine = "string \<Rightarrow> 'v option list \<Rightarrow> 'db \<Rightarrow> exn + int \<times> 'db"

record ('v, 'db) cursor =
  rowcount :: int
  pages :: "'v option list list list"
  db :: 'db

fun run_statements ::
  "('v, 'db) engine \<Rightarrow> string \<Rightarrow> 'v option list list \<Rightarrow> int \<times> 'db \<Rightarrow> exn + int \<times> 'db" where
  "run_statements eng sql [] st = Inr st"
| "run_statements eng sql (args # rest) (n, d) =
     (case eng sql args d of
        Inl e \<Rightarrow> Inl e
      | Inr (n', d') \<Rightarrow> run_statements eng sql rest (n', d'))"

definition cursor_execute ::
  "('v, 'db) engine \<Rightarrow> string \<Rightarrow> 'v option list list \<Rightarrow> ('v, 'db) cursor
     \<Rightarrow> exn + ('v, 'db) cursor" where
  "cursor_execute eng sql page cur =
     (if page = [] then Inl (OtherError ''cannot execute an empty query'')
      else case run_statements eng sql page (rowcount cur, db cur) of
             Inl e \<Rightarrow> Inl e
           | Inr (n, d) \<Rightarrow> Inr (cur\<lparr>rowcount := n, pages := pages cur @ [page], db := d\<rparr>))"

text \<open>The pages of \<open>execute_batch\<close>: consecutive groups of \<open>page_size\<close> rows.\<close>

fun paginate :: "'a list \<Rightarrow> nat \<Rightarrow> 'a list list" where
  "paginate xs n = (if xs = [] \<or> n = 0 then [] else take n xs # paginate (drop n xs) n)"

declare paginate.simps [simp del]

fun execute_pages ::
  "('v, 'db) engine \<Rightarrow> string \<Rightarrow> 'v option list list list \<Rightarrow> ('v, 'db) cursor
     \<Rightarrow> exn + ('v, 'db) cursor" where
  "execute_pages eng sql [] cur = Inr cur"
| "execute_pages eng sql (page # rest) cur =
     (case cursor_execute eng sql page cur of
        Inl e \<Rightarrow> Inl e
      | Inr cur' \<Rightarrow> execute_pages eng sql rest cur')"

text \<open>
  \<open>psycopg2.extras.execute_batch\<close>. With a page size that is not positive the first
  page is empty, and executing it raises.
\<close>

definition execute_batch ::
  "('v, 'db) engine \<Rightarrow> string \<Rightarrow> 'v option list list \<Rightarrow> int \<Rightarrow> ('v, 'db) cursor
     \<Rightarrow> exn + ('v, 'db) cursor" where
  "execute_batch eng sql argslist page_size cur =
     (if page_size \<le> 0 then cursor_execute eng sql [] cur
      else execute_pages eng sql (paginate argslist (nat page_size)) cur)"

text \<open>
  \<open>get_connection\<close> with a fresh cursor: the block's changes are committed when it
  returns and rolled back when it raises. The result is the outcome and the database.
\<close>

definition with_connection ::
  "(('v, 'db) cursor \<Rightarrow> exn + ('v, 'db) cursor) \<Rightarrow> 'db \<Rightarrow> (exn + ('v, 'db) cursor) \<times> 'db" where
  "with_connection block d =
     (case block \<lparr>rowcount = - 1, pages = [], db = d\<rparr> of
        Inl e \<Rightarrow> (Inl e, d)
      | Inr cur \<Rightarrow> (Inr cur, db cur))"

subsection \<open>Building statements\<close>

text \<open>\<open>sep.join(xs)\<close>.\<close>

fun join :: "string \<Rightarrow> string list \<Rightarrow> string" where
  "join sep [] = []"
| "join sep [x] = x"
| "join sep (x # y # ys) = x @ sep @ join sep (y # ys)"

text \<open>The line break and the indentation of the statements' text in the source.\<close>

definition nl :: string where
  "nl = [CHR 0x0A] @ replicate 12 CHR '' ''"

definition nl_end :: string where
  "nl_end = [CHR 0x0A] @ replicate 8 CHR '' ''"

text \<open>A row is a dictionary from column name to value; \<open>row.get(col)\<close>.\<close>

type_synonym 'v row = "(string \<times> 'v option) list"

definition row_get :: "'v row \<Rightarrow> string \<Rightarrow> 'v option" where
  "row_get row col = (case map_of row col of None \<Rightarrow> None | Some v \<Rightarrow> v)"

subsection \<open>Bulk insert\<close>

text \<open>\<open>DatabaseConnection.bulk_insert\<close>.\<close>

definition db_bulk_insert ::
  "('v, 'db) engine \<Rightarrow> string \<Rightarrow> 'v row list \<Rightarrow> int \<Rightarrow> 'db \<Rightarrow> (exn + int) \<times> 'db" where
  "db_bulk_insert eng table data batch_size d =
     (if data = [] then (Inr 0, d)
      else
        (let columns = map fst (hd data);
             placeholders = join '','' (replicate (length columns) ''%s'');
             column_names = join '','' columns;
             query = nl @ ''INSERT INTO '' @ table @ '' ('' @ column_names @ '')''
                     @ nl @ ''VALUES ('' @ placeholders @ '')''
                     @ nl @ ''ON CONFLICT DO NOTHING'' @ nl_end;
             values = map (\<lambda>row. map (\<lambda>col. row_get row col) columns) data
         in case with_connection (execute_batch eng query values batch_size) d of
              (Inl e, d') \<Rightarrow> (Inl e, d')
            | (Inr cur, d') \<Rightarrow> (Inr (rowcount cur), d')))"

text \<open>
  \<open>WarehouseLoader.bulk_insert\<close>; \<open>config_batch_size\<close> is \<open>config.etl.batch_size\<close>.
  The handler logs and raises the exception again.
\<close>

definition bulk_insert ::
  "int \<Rightarrow> ('v, 'db) engine \<Rightarrow> 'v row list \<Rightarrow> string \<Rightarrow> int option \<Rightarrow> 'db \<Rightarrow> (exn + int) \<times> 'db" where
  "bulk_insert config_batch_size eng data table_name batch_size d =
     (let batch_size =
            (case batch_size of
               None \<Rightarrow> config_batch_size
             | Some b \<Rightarrow> if b = 0 then config_batch_size else b)
      in db_bulk_insert eng table_name data batch_size d)"

subsection \<open>Upsert\<close>

text \<open>\<open>df.to_dict('records')\<close>: one dictionary for each row.\<close>

definition cell_at :: "'v column \<Rightarrow> nat \<Rightarrow> 'v option" where
  "cell_at c i = (if i < length (cells c) then cells c ! i else None)"

definition to_dict_records :: "'v dataframe \<Rightarrow> 'v row list" where
  "to_dict_records df = map (\<lambda>i. map (\<lambda>c. (cname c, cell_at c i)) (columns df)) [0 ..< nrows df]"

text \<open>The columns that \<open>upsert\<close> updates, and the statement it builds.\<close>

definition upsert_update_columns :: "'v dataframe \<Rightarrow> string list \<Rightarrow> string list option \<Rightarrow> string list" where
  "upsert_update_columns df conflict_columns update_columns =
     (case update_columns of
        None \<Rightarrow> filter (\<lambda>col. col \<notin> set conflict_columns) (column_names df)
      | Some cols \<Rightarrow> cols)"

definition upsert_query :: "'v dataframe \<Rightarrow> string \<Rightarrow> string list \<Rightarrow> string list \<Rightarrow> string" where
  "upsert_query df table_name conflict_columns update_columns =
     (let columns = column_names df;
          placeholders = join '','' (replicate (length columns) ''%s'');
          column_names = join '','' columns;
          conflict_clause = join '','' conflict_columns;
          update_clause = join '','' (map (\<lambda>col. col @ ''=EXCLUDED.'' @ col) update_columns)
      in nl @ ''INSERT INTO '' @ table_name @ '' ('' @ column_names @ '')''
         @ nl @ ''VALUES ('' @ placeholders @ '')''
         @ nl @ ''ON CONFLICT ('' @ conflict_clause @ '')''
         @ nl @ ''DO UPDATE SET '' @ update_clause @ nl_end)"

text \<open>
  \<open>WarehouseLoader.upsert\<close>. Nothing is checked before the statement is built and
  sent; the handler logs and raises the exception again.
\<close>

definition upsert ::
  "int \<Rightarrow> ('v, 'db) engine \<Rightarrow> 'v dataframe \<Rightarrow> string \<Rightarrow> string list \<Rightarrow> string list option
     \<Rightarrow> 'db \<Rightarrow> (exn + int) \<times> 'db" where
  "upsert config_batch_size eng df table_name conflict_columns update_columns d =
     (let update_columns = upsert_update_columns df conflict_columns update_columns;
          data = to_dict_records df;
          columns = column_names df;
          query = upsert_query df table_name conflict_columns update_columns;
          values = map (\<lambda>row. map (\<lambda>col. row_get row col) columns) data
      in case with_connection (execute_batch eng query values config_batch_size) d of
           (Inl e, d') \<Rightarrow> (Inl e, d')
         | (Inr cur, d') \<Rightarrow> (Inr (rowcount cur), d'))"

subsection \<open>Concrete databases and rows\<close>

text \<open>
  A table without constraints, as the list of its rows: every insert adds its row and
  affects one row. A database that refuses every statement, as a server does a statement
  it cannot parse. Five rows of one column.
\<close>

definition table_engine :: "(int, int option list list) engine" where
  "table_engine sql args tbl = Inr (1, tbl @ [args])"

definition refusing_engine :: "(int, int option list list) engine" where
  "refusing_engine sql args tbl = Inl (OtherError ''syntax error'')"

definition five_rows :: "int row list" where
  "five_rows = map (\<lambda>i. [(''id'', Some i)]) [1, 2, 3, 4, 5]"

definition df_no_rows :: "int dataframe" where
  "df_no_rows =
     \<lparr>nrows = 0,
      columns = [\<lparr>cname = ''id'', dtype = ''int64'', cells = []\<rparr>,
                 \<lparr>cname = ''price'', dtype = ''int64'', cells = []\<rparr>]\<rparr>"

section \<open>Properties of the distributed lock\<close>

lemma redis_get_issued [simp]: "redis_get (w\<lparr>issued := i\<rparr>) k = redis_get w k"
  by (simp add: redis_get_def split: option.splits)

lemma release_cases:
  "release h w =
     (if redis_get w (lock_name h) = Some (lock_id h)
      then (True, w\<lparr>issued := issued w @ [EvalCompareDelete (lock_name h) (lock_id h)],
                     entries := (entries w)(lock_name h := None)\<rparr>)
      else (False, w\<lparr>issued := issued w @ [EvalCompareDelete (lock_name h) (lock_id h)]\<rparr>))"
  by (simp add: release_def redis_eval_compare_delete_def Let_def)

text \<open>One turn of the loop of \<open>acquire\<close>, with the store's commands unfolded.\<close>

lemma acquire_loop_unfold:
  "acquire_loop env h blocking s m w =
     (let w1 = w\<lparr>issued := issued w @ [attempt_cmd h]\<rparr> in
      if timeout h \<le> 0 then Some (Inl (ResponseError ''invalid expire time in set''), w1)
      else if redis_get w (lock_name h) = None
        then Some (Inr True, w1\<lparr>entries := (entries w)(lock_name h \<mapsto> (lock_id h, clock w + timeout h))\<rparr>)
      else if \<not> blocking then Some (Inr False, w1)
      else if m \<le> clock w - s then Some (Inr False, w1)
      else if retry_interval h < 0
        then Some (Inl (ValueError ''sleep length must be non-negative''), w1)
      else acquire_loop env h blocking s m
             (w1\<lparr>clock := clock w + retry_interval h,
                 entries := env (clock w + retry_interval h) (entries w)\<rparr>))"
  by (subst acquire_loop.simps)
     (simp add: redis_set_nx_ex_def sleep_def Let_def attempt_cmd_def redis_get_def)

lemma acquire_loop_total:
  assumes "0 < timeout h" "0 < retry_interval h"
  shows "\<exists>n r w'. acquire_loop env h blocking s m w = Some (Inr r, w') \<and>
           clock w' = clock w + int n * retry_interval h \<and>
           issued w' = issued w @ replicate (Suc n) (attempt_cmd h) \<and>
           (\<not> blocking \<longrightarrow> n = 0) \<and>
           (r \<longrightarrow> redis_get w' (lock_name h) = Some (lock_id h)) \<and>
           (\<not> r \<longrightarrow> redis_get w' (lock_name h) \<noteq> None) \<and>
           (n = 0 \<longrightarrow> r = (redis_get w (lock_name h) = None)) \<and>
           (blocking \<and> \<not> r \<longrightarrow> m \<le> clock w' - s \<and> (0 < n \<longrightarrow> clock w' - retry_interval h - s < m))"
proof (induction "nat (m - (clock w - s))" arbitrary: w rule: less_induct)
  case less
  let ?k = "lock_name h" and ?c = "attempt_cmd h"
  let ?w1 = "w\<lparr>issued := issued w @ [?c]\<rparr>"
  consider (free) "redis_get w ?k = None"
    | (stop) "redis_get w ?k \<noteq> None" "\<not> blocking \<or> m \<le> clock w - s"
    | (retry) "redis_get w ?k \<noteq> None" "blocking" "\<not> m \<le> clock w - s"
    by blast
  then show ?case
  proof cases
    case free
    let ?w' = "?w1\<lparr>entries := (entries w)(?k \<mapsto> (lock_id h, clock w + timeout h))\<rparr>"
    have run: "acquire_loop env h blocking s m w = Some (Inr True, ?w')"
      using free assms by (subst acquire_loop_unfold) (simp add: Let_def)
    have held: "redis_get ?w' ?k = Some (lock_id h)"
      using assms by (simp add: redis_get_def)
    show ?thesis
      using free by (rule_tac exI[of _ 0], rule_tac exI[of _ True], rule_tac exI[of _ ?w']) (simp add: run held)
  next
    case stop
    have run: "acquire_loop env h blocking s m w = Some (Inr False, ?w1)"
      using stop assms by (subst acquire_loop_unfold) (auto simp: Let_def)
    show ?thesis
      using stop by (intro exI[of _ 0] exI[of _ False] exI[of _ ?w1]) (auto simp: run)
  next
    case retry
    let ?w2 = "?w1\<lparr>clock := clock w + retry_interval h,
                     entries := env (clock w + retry_interval h) (entries w)\<rparr>"
    have run: "acquire_loop env h blocking s m w = acquire_loop env h blocking s m ?w2"
      using retry assms by (subst acquire_loop_unfold) (auto simp: Let_def)
    have "nat (m - (clock ?w2 - s)) < nat (m - (clock w - s))"
      using retry(3) assms(2) by simp
    from less[OF this] obtain n r w' where
      IH: "acquire_loop env h blocking s m ?w2 = Some (Inr r, w') \<and>
           clock w' = clock ?w2 + int n * retry_interval h \<and>
           issued w' = issued ?w2 @ replicate (Suc n) ?c \<and>
           (\<not> blocking \<longrightarrow> n = 0) \<and>
           (r \<longrightarrow> redis_get w' ?k = Some (lock_id h)) \<and>
           (\<not> r \<longrightarrow> redis_get w' ?k \<noteq> None) \<and>
           (n = 0 \<longrightarrow> r = (redis_get ?w2 ?k = None)) \<and>
           (blocking \<and> \<not> r \<longrightarrow> m \<le> clock w' - s \<and> (0 < n \<longrightarrow> clock w' - retry_interval h - s < m))"
      by (elim exE)
    note IH1 = IH[THEN conjunct1]
    note IH2 = IH[THEN conjunct2, THEN conjunct1]
    note IH3 = IH[THEN conjunct2, THEN conjunct2, THEN conjunct1]
    note IH5 = IH[THEN conjunct2, THEN conjunct2, THEN conjunct2, THEN conjunct2, THEN conjunct1]
    note IH6 = IH[THEN conjunct2, THEN conjunct2, THEN conjunct2, THEN conjunct2, THEN conjunct2, THEN conjunct1]
    note IH8 = IH[THEN conjunct2, THEN conjunct2, THEN conjunct2, THEN conjunct2, THEN conjunct2, THEN conjunct2, THEN conjunct2]
    have c: "clock w' = clock w + int (Suc n) * retry_interval h"
      using IH2 by (simp add: algebra_simps)
    have i: "issued w' = issued w @ replicate (Suc (Suc n)) ?c"
      using IH3 by simp
    have b: "blocking \<and> \<not> r \<longrightarrow> m \<le> clock w' - s \<and> (0 < Suc n \<longrightarrow> clock w' - retry_interval h - s < m)"
    proof (cases n)
      case 0
      then show ?thesis using IH8 IH2 retry(3) by auto
    next
      case (Suc j)
      then show ?thesis using IH8 by auto
    qed
    have fin: "acquire_loop env h blocking s m w = Some (Inr r, w')"
      using run IH1 by simp
    show ?thesis
      using retry(2) IH5 IH6 b fin c i
      by (intro exI[of _ "Suc n"] exI[of _ r] exI[of _ w']) simp
  qed
qed

lemma acquire_loop_False_held:
  assumes "acquire_loop env h b s m w = Some r"
  shows "fst r = Inr False \<longrightarrow> redis_get (snd r) (lock_name h) \<noteq> None"
proof (rule acquire_loop.raw_induct
    [where P = "\<lambda>env h b s m w r. fst r = Inr False \<longrightarrow> redis_get (snd r) (lock_name h) \<noteq> None",
      OF _ assms], goal_cases)
  case (1 f env h blocking start_time max_wait w r)
  then show ?case
    by (auto simp: redis_set_nx_ex_def sleep_def Let_def split: if_splits prod.splits sum.splits)
qed

subsection \<open>Release\<close>

text \<open>
  Claim C2. \<open>release\<close> returns true exactly when the live entry under the lock's name
  carries this handle's owner token; in that case the entry is deleted, and in every other
  case (no entry, an expired one, or another holder's token) the entries are left as they
  were. It sends one compare-and-delete command and does not touch the clock.
\<close>

theorem release_compare_and_delete:
  "fst (release h w) = (redis_get w (lock_name h) = Some (lock_id h)) \<and>
   (fst (release h w) \<longrightarrow> entries (snd (release h w)) = (entries w)(lock_name h := None)) \<and>
   (\<not> fst (release h w) \<longrightarrow> entries (snd (release h w)) = entries w) \<and>
   clock (snd (release h w)) = clock w \<and>
   issued (snd (release h w)) = issued w @ [EvalCompareDelete (lock_name h) (lock_id h)]"
  by (simp add: release_cases)

text \<open>
  The scenario of the claim: \<open>A\<close> acquires, its lease expires, \<open>B\<close> acquires; then
  \<open>A\<close>'s release returns false and \<open>B\<close>'s entry stays, while \<open>B\<close>'s own release
  returns true and deletes it.
\<close>

theorem release_compare_and_delete_witness:
  "acquire no_others handle_A False None store_empty = Some (Inr True, store_A_acquired) \<and>
   acquire no_others handle_B False None (store_A_acquired\<lparr>clock := 10\<rparr>)
     = Some (Inr True, store_B_reacquired) \<and>
   \<not> fst (release handle_A store_B_reacquired) \<and>
   entries (snd (release handle_A store_B_reacquired)) = entries store_B_reacquired \<and>
   redis_get (snd (release handle_A store_B_reacquired)) ''etl:lock:t'' = Some ''B'' \<and>
   fst (release handle_B store_B_reacquired) \<and>
   redis_get (snd (release handle_B store_B_reacquired)) ''etl:lock:t'' = None"
proof -
  have a: "acquire no_others handle_A False None store_empty = Some (Inr True, store_A_acquired)"
    by (simp add: acquire_def acquire_loop_unfold handle_A_def new_lock_def store_empty_def
        store_A_acquired_def attempt_cmd_def redis_get_def Let_def)
  have b: "acquire no_others handle_B False None (store_A_acquired\<lparr>clock := 10\<rparr>)
             = Some (Inr True, store_B_reacquired)"
    by (simp add: acquire_def acquire_loop_unfold handle_B_def new_lock_def
        store_A_acquired_def store_B_reacquired_def attempt_cmd_def redis_get_def Let_def)
  have g: "redis_get store_B_reacquired ''etl:lock:t'' = Some ''B''"
    by (simp add: redis_get_def store_B_reacquired_def)
  have nA: "lock_name handle_A = ''etl:lock:t''" "lock_id handle_A = ''A''"
    by (simp_all add: handle_A_def new_lock_def)
  have nB: "lock_name handle_B = ''etl:lock:t''" "lock_id handle_B = ''B''"
    by (simp_all add: handle_B_def new_lock_def)
  show ?thesis
    using release_compare_and_delete [of handle_A store_B_reacquired]
          release_compare_and_delete [of handle_B store_B_reacquired]
    by (simp add: a b g nA nB redis_get_def store_B_reacquired_def)
qed

subsection \<open>Acquire\<close>

text \<open>
  Claim C3, as the code has it. On a handle whose lease and retry interval are positive,
  \<open>acquire\<close> returns, without raising, after \<open>n + 1\<close> attempts spaced by the retry
  interval. A non-blocking call makes one attempt only. It returns true when an attempt set
  the key (which then carries this handle's token), and false when the last attempt found
  the key held; a blocking call returns false only once the elapsed wait has reached
  \<open>max_wait\<close>, and at the first attempt at which that is so. \<open>max_wait\<close> is the lease
  duration when no timeout is given.
\<close>

theorem acquire_terminates_positive_intervals:
  assumes "0 < timeout h" "0 < retry_interval h"
  shows "\<exists>n r w'. acquire env h blocking tmo w = Some (Inr r, w') \<and>
           clock w' = clock w + int n * retry_interval h \<and>
           issued w' = issued w @ replicate (Suc n) (attempt_cmd h) \<and>
           (\<not> blocking \<longrightarrow> n = 0) \<and>
           (r \<longrightarrow> redis_get w' (lock_name h) = Some (lock_id h)) \<and>
           (\<not> r \<longrightarrow> redis_get w' (lock_name h) \<noteq> None) \<and>
           (n = 0 \<longrightarrow> r = (redis_get w (lock_name h) = None)) \<and>
           (blocking \<and> \<not> r \<longrightarrow>
              max_wait_of tmo h \<le> clock w' - clock w \<and>
              (0 < n \<longrightarrow> clock w' - retry_interval h - clock w < max_wait_of tmo h)) \<and>
           max_wait_of None h = timeout h"
  using acquire_loop_total[OF assms, of env blocking "clock w" "max_wait_of tmo h" w]
  by (simp add: acquire_def max_wait_of_def)

text \<open>An instance: a blocking call with timeout 2 against a lock that \<open>B\<close> holds.\<close>

theorem acquire_terminates_positive_intervals_witness:
  "0 < timeout handle_A \<and> 0 < retry_interval handle_A \<and>
   (\<exists>n r w'. acquire no_others handle_A True (Some 2) store_held_by_B = Some (Inr r, w') \<and>
           clock w' = clock store_held_by_B + int n * retry_interval handle_A \<and>
           issued w' = issued store_held_by_B @ replicate (Suc n) (attempt_cmd handle_A) \<and>
           (r \<longrightarrow> redis_get w' (lock_name handle_A) = Some (lock_id handle_A)) \<and>
           (\<not> r \<longrightarrow> redis_get w' (lock_name handle_A) \<noteq> None) \<and>
           (\<not> r \<longrightarrow> 2 \<le> clock w' - clock store_held_by_B))"
proof -
  have p: "0 < timeout handle_A" "0 < retry_interval handle_A"
    by (simp_all add: handle_A_def new_lock_def)
  show ?thesis
    using acquire_terminates_positive_intervals [OF p, of no_others True "Some 2" store_held_by_B] p
    by (auto simp: max_wait_of_def)
qed

text \<open>
  Without the positive retry interval the claim fails: with retry interval \<open>-1\<close> a
  blocking call on a held lock ends in the \<open>ValueError\<close> of \<open>time.sleep\<close>, neither
  true nor false.
\<close>

theorem acquire_negative_retry_interval_raises:
  "map_option fst (acquire no_others (new_lock ''t'' 5 (- 1) ''A'') True None store_held_by_B)
     = Some (Inl (ValueError ''sleep length must be non-negative''))"
  by (simp add: acquire_def acquire_loop_unfold new_lock_def store_held_by_B_def
      max_wait_of_def redis_get_def Let_def)

subsection \<open>Scoped acquisition\<close>

text \<open>
  Claim C4. When \<open>acquire\<close> returns false, \<open>context\<close> raises \<open>RuntimeError\<close> and the
  body does not run. When \<open>acquire\<close> returns true, the body runs, and whatever its outcome
  (a value or an exception) \<open>release\<close> is called on the state the body left, its command
  being the last one sent; the outcome of the body is the outcome of the block.
\<close>

theorem lock_context_acquire_or_raise_then_release:
  "(acquire env h blocking tmo w = Some (Inr False, w1) \<longrightarrow>
      lock_context env h blocking tmo body w
        = Some (Inl (RuntimeError (''Failed to acquire lock: '' @ lock_name h)), w1)) \<and>
   (acquire env h blocking tmo w = Some (Inr True, w1) \<longrightarrow>
      lock_context env h blocking tmo body w
        = Some (fst (body w1), snd (release h (snd (body w1)))) \<and>
      issued (snd (release h (snd (body w1))))
        = issued (snd (body w1)) @ [EvalCompareDelete (lock_name h) (lock_id h)])"
  by (simp add: lock_context_def release_cases split: prod.splits)

text \<open>
  Instances: a non-blocking call on a held lock raises; on a free lock a body that raises
  and a body that returns are both followed by the release command.
\<close>

theorem lock_context_acquire_or_raise_then_release_witness:
  "acquire no_others handle_A False None store_held_by_B
     = Some (Inr False, store_held_by_B\<lparr>issued := [SetNxEx ''etl:lock:t'' ''A'' 5]\<rparr>) \<and>
   map_option fst (lock_context no_others handle_A False None body_returns store_held_by_B)
     = Some (Inl (RuntimeError ''Failed to acquire lock: etl:lock:t'')) \<and>
   acquire no_others handle_A True None store_empty = Some (Inr True, store_A_acquired) \<and>
   map_option fst (lock_context no_others handle_A True None body_raises store_empty)
     = Some (Inl (OtherError ''boom'')) \<and>
   map_option (issued \<circ> snd) (lock_context no_others handle_A True None body_raises store_empty)
     = Some [SetNxEx ''etl:lock:t'' ''A'' 5, EvalCompareDelete ''etl:lock:t'' ''A''] \<and>
   map_option fst (lock_context no_others handle_A True None body_returns store_empty)
     = Some (Inr 7) \<and>
   map_option (issued \<circ> snd) (lock_context no_others handle_A True None body_returns store_empty)
     = Some [SetNxEx ''etl:lock:t'' ''A'' 5, EvalCompareDelete ''etl:lock:t'' ''A'']"
proof -
  have f: "acquire no_others handle_A False None store_held_by_B
     = Some (Inr False, store_held_by_B\<lparr>issued := [SetNxEx ''etl:lock:t'' ''A'' 5]\<rparr>)"
    by (simp add: acquire_def acquire_loop_unfold handle_A_def new_lock_def store_held_by_B_def
        attempt_cmd_def redis_get_def Let_def)
  have t: "acquire no_others handle_A True None store_empty = Some (Inr True, store_A_acquired)"
    by (simp add: acquire_def acquire_loop_unfold handle_A_def new_lock_def store_empty_def
        store_A_acquired_def attempt_cmd_def redis_get_def Let_def)
  have n: "lock_name handle_A = ''etl:lock:t''" "lock_id handle_A = ''A''"
    by (simp_all add: handle_A_def new_lock_def)
  have i: "issued store_A_acquired = [SetNxEx ''etl:lock:t'' ''A'' 5]"
    by (simp add: store_A_acquired_def)
  show ?thesis
    using lock_context_acquire_or_raise_then_release
            [of no_others handle_A False None store_held_by_B _ body_returns]
          lock_context_acquire_or_raise_then_release
            [of no_others handle_A True None store_empty store_A_acquired body_raises]
          lock_context_acquire_or_raise_then_release
            [of no_others handle_A True None store_empty store_A_acquired body_returns]
    by (simp add: f t n i body_raises_def body_returns_def)
qed

subsection \<open>The plain with-statement\<close>

text \<open>
  Claim C9. When the \<open>acquire\<close> of \<open>__enter__\<close> returns false, \<open>__enter__\<close> raises
  nothing; the body runs on the state that the failed acquisition left, in which the key is
  live and was not written by this call; and \<open>__exit__\<close> still sends the release command
  after the body, whose outcome is the outcome of the block.
\<close>

theorem with_lock_runs_body_after_failed_acquire:
  assumes "acquire env h True None w = Some (Inr False, w1)"
  shows "lock_enter env h w = Some (Inr (), w1) \<and>
         redis_get w1 (lock_name h) \<noteq> None \<and>
         with_lock env h body w
           = Some (map_sum id Some (fst (body w1)), snd (release h (snd (body w1)))) \<and>
         issued (snd (release h (snd (body w1))))
           = issued (snd (body w1)) @ [EvalCompareDelete (lock_name h) (lock_id h)]"
proof -
  have "redis_get w1 (lock_name h) \<noteq> None"
    using assms acquire_loop_False_held [of env h True "clock w" "max_wait_of None h" w "(Inr False, w1)"]
    by (simp add: acquire_def)
  moreover have "lock_enter env h w = Some (Inr (), w1)"
    using assms by (simp add: lock_enter_def)
  moreover have "with_lock env h body w
           = Some (map_sum id Some (fst (body w1)), snd (release h (snd (body w1))))"
    using assms
    by (cases "body w1"; cases "fst (body w1)")
       (simp_all add: with_lock_def lock_enter_def lock_exit_def split: prod.splits)
  ultimately show ?thesis by (simp add: release_cases)
qed

text \<open>
  An instance: \<open>B\<close> holds the lock beyond \<open>A\<close>'s wait of 5; the body of \<open>A\<close> runs and
  returns 7, and \<open>B\<close>'s entry survives \<open>A\<close>'s release.
\<close>

theorem with_lock_runs_body_after_failed_acquire_witness:
  "acquire no_others handle_A True None store_held_by_B
     = Some (Inr False, store_held_by_B\<lparr>clock := 5, issued := replicate 6 (SetNxEx ''etl:lock:t'' ''A'' 5)\<rparr>) \<and>
   map_option fst (lock_enter no_others handle_A store_held_by_B) = Some (Inr ()) \<and>
   map_option fst (with_lock no_others handle_A body_returns store_held_by_B) = Some (Inr (Some 7)) \<and>
   map_option (issued \<circ> snd) (with_lock no_others handle_A body_returns store_held_by_B)
     = Some (replicate 6 (SetNxEx ''etl:lock:t'' ''A'' 5) @ [EvalCompareDelete ''etl:lock:t'' ''A'']) \<and>
   map_option ((\<lambda>w. redis_get w ''etl:lock:t'') \<circ> snd) (with_lock no_others handle_A body_returns store_held_by_B)
     = Some (Some ''B'')"
proof -
  have f: "acquire no_others handle_A True None store_held_by_B
     = Some (Inr False, store_held_by_B\<lparr>clock := 5, issued := replicate 6 (SetNxEx ''etl:lock:t'' ''A'' 5)\<rparr>)"
    by (simp add: acquire_def acquire_loop_unfold handle_A_def new_lock_def store_held_by_B_def
        attempt_cmd_def redis_get_def Let_def max_wait_of_def no_others_def eval_nat_numeral)
  have n: "lock_name handle_A = ''etl:lock:t''" "lock_id handle_A = ''A''"
    by (simp_all add: handle_A_def new_lock_def)
  show ?thesis
    using with_lock_runs_body_after_failed_acquire [OF f, of body_returns] f
    by (simp add: n body_returns_def release_cases redis_get_def store_held_by_B_def)
qed

section \<open>Properties of the validation engine\<close>

subsection \<open>Auxiliary facts\<close>


lemma schema_column_step_inv:
  "snd st = (fst st = []) \<Longrightarrow>
   snd (schema_column_step df item st) = (fst (schema_column_step df item st) = [])"
  by (cases item; cases st) (auto simp: schema_column_step_def Let_def split: option.splits)

lemma schema_fold_inv:
  "snd st = (fst st = []) \<Longrightarrow>
   snd (fold (schema_column_step df) items st) = (fst (fold (schema_column_step df) items st) = [])"
  by (induction items arbitrary: st) (simp_all add: schema_column_step_inv)

lemma schema_result_passed:
  "passed (schema_result self df es allow) = (error_details (schema_result self df es allow) = [])"
  by (simp add: schema_result_def Let_def split_beta schema_fold_inv)

lemma completeness_result_passed:
  "passed (completeness_result self df rc nt mr) = (error_details (completeness_result self df rc nt mr) = [])"
  by (simp add: completeness_result_def Let_def)

lemma accuracy_result_passed:
  "passed (fst (accuracy_result pd self df vr cv rp cr)) = (error_details (fst (accuracy_result pd self df vr cv rp cr)) = [])"
  by (simp add: accuracy_result_def Let_def split: prod.splits)

lemma consistency_result_passed:
  "passed (fst (consistency_result pd self df dt uc dfm cf)) = (error_details (fst (consistency_result pd self df dt uc dfm cf)) = [])"
  by (simp add: consistency_result_def Let_def split: prod.splits)

lemma log_raise_return_Inr:
  "snd (log_raise_return self logs r) = Inr r' \<Longrightarrow> r' = r"
  by (auto simp: log_raise_return_def raise_if_failed_def split: if_splits)

lemma log_raise_return_cases:
  "log_raise_return self logs r =
     (logs @ [log_result r],
      if strict_mode self \<and> \<not> passed r
      then Inl (ValueError
             (''Validation failed: '' @ validator_name r @ '' - '' @ validation_type r
              @ ''. Failed records: '' @ str_int (failed_records r) @ ''/''
              @ str_int (total_records r)))
      else Inr r)"
  by (simp add: log_raise_return_def raise_if_failed_def)

lemma completeness_validate_Inr:
  "snd (completeness_validate self df rc nt mr) = Inr r \<Longrightarrow> r = completeness_result self df rc nt mr"
  by (auto simp: completeness_validate_def log_raise_return_cases split: if_splits)

lemma schema_validate_Inr:
  "snd (schema_validate self df es allow) = Inr r \<Longrightarrow> r = schema_result self df es allow"
  by (auto simp: schema_validate_def log_raise_return_cases split: if_splits)

lemma accuracy_validate_Inr:
  "snd (accuracy_validate pd self df vr cv rp cr) = Inr r \<Longrightarrow> r = fst (accuracy_result pd self df vr cv rp cr)"
  by (auto simp: accuracy_validate_def log_raise_return_cases split_beta split: if_splits)

lemma consistency_validate_Inr:
  "snd (consistency_validate pd self df dt uc dfm cf) = Inr r \<Longrightarrow> r = fst (consistency_result pd self df dt uc dfm cf)"
  by (auto simp: consistency_validate_def log_raise_return_cases split_beta split: if_splits)

subsection \<open>Passed means no error entries\<close>

text \<open>
  Claim C1. For each of the four validators, whatever the dataset and the rules, a result
  that \<open>validate\<close> returns has \<open>passed\<close> true exactly when its \<open>error_details\<close> is
  empty. (In the completeness and schema validators \<open>passed\<close> is a flag of its own, set
  beside every append; the other two compute it from the list.)
\<close>

theorem validation_result_passed_iff_no_error_details:
  "(snd (completeness_validate self1 df1 required_columns null_threshold min_row_count) = Inr r1
      \<longrightarrow> passed r1 = (error_details r1 = [])) \<and>
   (snd (accuracy_validate pd2 self2 df2 value_ranges categorical_values regex_patterns custom_rules)
      = Inr r2 \<longrightarrow> passed r2 = (error_details r2 = [])) \<and>
   (snd (consistency_validate pd3 self3 df3 data_types unique_columns date_formats cross_field_rules)
      = Inr r3 \<longrightarrow> passed r3 = (error_details r3 = [])) \<and>
   (snd (schema_validate self4 df4 expected_schema allow_extra_columns) = Inr r4
      \<longrightarrow> passed r4 = (error_details r4 = []))"
proof (intro conjI impI)
  assume "snd (completeness_validate self1 df1 required_columns null_threshold min_row_count) = Inr r1"
  then have "r1 = completeness_result self1 df1 required_columns null_threshold min_row_count"
    by (rule completeness_validate_Inr)
  then show "passed r1 = (error_details r1 = [])"
    by (simp add: completeness_result_passed)
next
  assume "snd (accuracy_validate pd2 self2 df2 value_ranges categorical_values regex_patterns
            custom_rules) = Inr r2"
  then have "r2 = fst (accuracy_result pd2 self2 df2 value_ranges categorical_values
                         regex_patterns custom_rules)"
    by (rule accuracy_validate_Inr)
  then show "passed r2 = (error_details r2 = [])"
    by (simp add: accuracy_result_passed)
next
  assume "snd (consistency_validate pd3 self3 df3 data_types unique_columns date_formats
            cross_field_rules) = Inr r3"
  then have "r3 = fst (consistency_result pd3 self3 df3 data_types unique_columns date_formats
                         cross_field_rules)"
    by (rule consistency_validate_Inr)
  then show "passed r3 = (error_details r3 = [])"
    by (simp add: consistency_result_passed)
next
  assume "snd (schema_validate self4 df4 expected_schema allow_extra_columns) = Inr r4"
  then have "r4 = schema_result self4 df4 expected_schema allow_extra_columns"
    by (rule schema_validate_Inr)
  then show "passed r4 = (error_details r4 = [])"
    by (simp add: schema_result_passed)
qed

lemma ex_completeness:
  "completeness_result self df_empty [] 0 1
     = \<lparr>validator_name = name self, validation_type = ''completeness'',
        passed = False, passed_records = 0, failed_records = 0, total_records = 0,
        error_details = [MinRowCount 1 0],
        metadata = [(''row_count'', 0), (''column_count'', 0)]\<rparr>"
  by (simp add: completeness_result_def df_empty_def Let_def column_names_def)

lemma ex_accuracy:
  "accuracy_result pd_example self df_prices [(''price'', 0, 300), (''volume'', 0, 10000)] [] [] []
     = (\<lparr>validator_name = name self, validation_type = ''accuracy'',
         passed = False, passed_records = 5, failed_records = 1, total_records = 6,
         error_details = [ValueRange ''price'' 0 300 1 [Some 500]],
         metadata = [(''checks_performed'', 2)]\<rparr>, [])"
  by (simp add: accuracy_result_def df_prices_def Let_def value_range_step_def get_column_def)

lemma ex_consistency:
  "consistency_result pd_example self df_ids [] [''id''] [] []
     = (\<lparr>validator_name = name self, validation_type = ''consistency'',
         passed = False, passed_records = 3, failed_records = 1, total_records = 4,
         error_details = [Uniqueness ''id'' 1],
         metadata = [(''data_type_checks'', 0), (''uniqueness_checks'', 1),
                     (''date_format_checks'', 0), (''cross_field_checks'', 0)]\<rparr>, [])"
  by (simp add: consistency_result_def df_ids_def Let_def uniqueness_step_def get_column_def
      duplicated_sum_def)

lemma ex_schema:
  "schema_result self df_prices
       [(''price'', \<lparr>stype = Some ''int'', nullable = Some False\<rparr>),
        (''volume'', \<lparr>stype = Some ''INT'', nullable = None\<rparr>)] False
     = \<lparr>validator_name = name self, validation_type = ''schema'',
        passed = True, passed_records = 3, failed_records = 0, total_records = 3,
        error_details = [],
        metadata = [(''expected_columns'', 2), (''actual_columns'', 2),
                    (''allow_extra_columns'', 0)]\<rparr>"
  by (simp add: schema_result_def df_prices_def Let_def schema_column_step_def
      get_column_def column_names_def null_count_def is_type_compatible_def type_mappings_def
      lower_def lower_char_def)

lemma ex_schema_missing:
  "schema_result self df_prices
       [(''price'', \<lparr>stype = Some ''int'', nullable = Some False\<rparr>),
        (''symbol'', \<lparr>stype = Some ''string'', nullable = None\<rparr>)] True
     = \<lparr>validator_name = name self, validation_type = ''schema'',
        passed = False, passed_records = 0, failed_records = 3, total_records = 3,
        error_details = [MissingColumns {''symbol''}],
        metadata = [(''expected_columns'', 2), (''actual_columns'', 2),
                    (''allow_extra_columns'', 1)]\<rparr>"
  by (auto simp add: schema_result_def df_prices_def Let_def schema_column_step_def
      get_column_def column_names_def null_count_def is_type_compatible_def type_mappings_def
      lower_def lower_char_def)

lemmas validate_defs =
  completeness_validate_def accuracy_validate_def consistency_validate_def schema_validate_def
  log_raise_return_cases log_result_def
  CompletenessValidator_def AccuracyValidator_def ConsistencyValidator_def SchemaValidator_def

lemmas examples = ex_completeness ex_accuracy ex_consistency ex_schema ex_schema_missing

text \<open>
  Instances: an empty dataset against a minimum of one row, a price out of range, a
  duplicated id (each failing, with one entry), and a schema that the dataset meets.
\<close>

theorem validation_result_passed_iff_no_error_details_witness:
  "(\<exists>r. snd (completeness_validate (CompletenessValidator False) df_empty [] 0 1) = Inr r \<and>
        passed r = (error_details r = []) \<and> error_details r = [MinRowCount 1 0]) \<and>
   (\<exists>r. snd (accuracy_validate pd_example (AccuracyValidator False) df_prices
               [(''price'', 0, 300), (''volume'', 0, 10000)] [] [] []) = Inr r \<and>
        passed r = (error_details r = []) \<and>
        error_details r = [ValueRange ''price'' 0 300 1 [Some 500]]) \<and>
   (\<exists>r. snd (consistency_validate pd_example (ConsistencyValidator False) df_ids [] [''id''] [] [])
          = Inr r \<and>
        passed r = (error_details r = []) \<and> error_details r = [Uniqueness ''id'' 1]) \<and>
   (\<exists>r. snd (schema_validate (SchemaValidator False) df_prices
               [(''price'', \<lparr>stype = Some ''int'', nullable = Some False\<rparr>),
                (''volume'', \<lparr>stype = Some ''INT'', nullable = None\<rparr>)] False) = Inr r \<and>
        passed r = (error_details r = []) \<and> error_details r = [])"
  using validation_result_passed_iff_no_error_details
    [where ?self1.0 = "CompletenessValidator False" and ?df1.0 = df_empty
       and required_columns = "[]" and null_threshold = 0 and min_row_count = 1
       and ?r1.0 = "projr (snd (completeness_validate (CompletenessValidator False) df_empty [] 0 1))"
       and ?pd2.0 = pd_example and ?self2.0 = "AccuracyValidator False" and ?df2.0 = df_prices
       and value_ranges = "[(''price'', 0, 300), (''volume'', 0, 10000)]"
       and categorical_values = "[]" and regex_patterns = "[]" and custom_rules = "[]"
       and ?r2.0 = "projr (snd (accuracy_validate pd_example (AccuracyValidator False) df_prices
               [(''price'', 0, 300), (''volume'', 0, 10000)] [] [] []))"
       and ?pd3.0 = pd_example and ?self3.0 = "ConsistencyValidator False" and ?df3.0 = df_ids
       and data_types = "[]" and unique_columns = "[''id'']" and date_formats = "[]"
       and cross_field_rules = "[]"
       and ?r3.0 = "projr (snd (consistency_validate pd_example (ConsistencyValidator False) df_ids
               [] [''id''] [] []))"
       and ?self4.0 = "SchemaValidator False" and ?df4.0 = df_prices
       and expected_schema = "[(''price'', \<lparr>stype = Some ''int'', nullable = Some False\<rparr>),
                (''volume'', \<lparr>stype = Some ''INT'', nullable = None\<rparr>)]"
       and allow_extra_columns = False
       and ?r4.0 = "projr (snd (schema_validate (SchemaValidator False) df_prices
               [(''price'', \<lparr>stype = Some ''int'', nullable = Some False\<rparr>),
                (''volume'', \<lparr>stype = Some ''INT'', nullable = None\<rparr>)] False))"]
  by (simp add: validate_defs examples)

lemma accuracy_total_is_sum:
  "total_records (fst (accuracy_result pd self df vr cv rp cr))
     = passed_records (fst (accuracy_result pd self df vr cv rp cr))
       + failed_records (fst (accuracy_result pd self df vr cv rp cr))"
  by (simp add: accuracy_result_def Let_def split_beta)

lemma ex_one_row:
  "fst (accuracy_result pd_example (AccuracyValidator False) df_one_row
         [(''price'', 0, 300)] [(''price'', [Some 100, Some 200])] [] [])
     = \<lparr>validator_name = ''accuracy_validator'', validation_type = ''accuracy'',
        passed = False, passed_records = 0, failed_records = 2, total_records = 2,
        error_details = [ValueRange ''price'' 0 300 1 [Some 500],
                         CategoricalValues ''price'' [Some 100, Some 200] 1 [Some 500]],
        metadata = [(''checks_performed'', 2)]\<rparr>"
  by (simp add: accuracy_result_def AccuracyValidator_def df_one_row_def Let_def
      value_range_step_def categorical_step_def get_column_def unique_def)

subsection \<open>The counts of the accuracy validator\<close>

text \<open>
  Claim C8, as the code has it. The accuracy validator computes \<open>total_records\<close> as
  \<open>passed_count + failed_count\<close>, so the two counts always add up to the total and never
  exceed it. What the per-check counting inflates is the failed count against the rows of
  the dataset: a single row that two checks flag gives \<open>failed_records = 2\<close>.
\<close>

theorem accuracy_total_is_passed_plus_failed:
  "total_records (fst (accuracy_result pd self df value_ranges categorical_values regex_patterns
                         custom_rules))
     = passed_records (fst (accuracy_result pd self df value_ranges categorical_values
                              regex_patterns custom_rules))
       + failed_records (fst (accuracy_result pd self df value_ranges categorical_values
                                regex_patterns custom_rules)) \<and>
   failed_records (fst (accuracy_result pd_example (AccuracyValidator False) df_one_row
                          [(''price'', 0, 300)] [(''price'', [Some 100, Some 200])] [] []))
     = 2 \<and>
   int (nrows df_one_row) = 1"
  by (simp add: accuracy_total_is_sum ex_one_row) (simp add: df_one_row_def)

text \<open>
  The claim as stated asks for a result whose passed and failed counts add up to more than
  its total; there is none.
\<close>

theorem accuracy_sum_never_exceeds_total:
  "\<not> (\<exists>(pd :: int pandas) self df value_ranges categorical_values regex_patterns custom_rules.
        passed_records (fst (accuracy_result pd self df value_ranges categorical_values
                               regex_patterns custom_rules))
        + failed_records (fst (accuracy_result pd self df value_ranges categorical_values
                                 regex_patterns custom_rules))
        > total_records (fst (accuracy_result pd self df value_ranges categorical_values
                                regex_patterns custom_rules)))"
  by (simp add: accuracy_total_is_sum)

subsection \<open>Strict mode\<close>

text \<open>
  Claim C5. For each of the four validators: in strict mode a non-passing result makes
  \<open>validate\<close> raise \<open>ValueError\<close>, after the result has been computed and its summary
  written to the log (the summary is the last entry of the log that the call leaves), with
  a message that names the validator, the kind, and the failed and total counts; without
  strict mode \<open>validate\<close> returns the result, passing or not.
\<close>

theorem strict_mode_raises_after_logging:
  "(strict_mode self1 \<and> \<not> passed (completeness_result self1 df1 rc nt mr) \<longrightarrow>
      completeness_validate self1 df1 rc nt mr
        = ([log_result (completeness_result self1 df1 rc nt mr)],
           Inl (ValueError
             (''Validation failed: '' @ name self1 @ '' - completeness. Failed records: ''
              @ str_int (failed_records (completeness_result self1 df1 rc nt mr)) @ ''/''
              @ str_int (total_records (completeness_result self1 df1 rc nt mr)))))) \<and>
   (\<not> strict_mode self1 \<longrightarrow>
      completeness_validate self1 df1 rc nt mr
        = ([log_result (completeness_result self1 df1 rc nt mr)],
           Inr (completeness_result self1 df1 rc nt mr))) \<and>
   (strict_mode self2 \<and> \<not> passed (fst (accuracy_result pd2 self2 df2 vr cv rp cr)) \<longrightarrow>
      accuracy_validate pd2 self2 df2 vr cv rp cr
        = (snd (accuracy_result pd2 self2 df2 vr cv rp cr)
             @ [log_result (fst (accuracy_result pd2 self2 df2 vr cv rp cr))],
           Inl (ValueError
             (''Validation failed: '' @ name self2 @ '' - accuracy. Failed records: ''
              @ str_int (failed_records (fst (accuracy_result pd2 self2 df2 vr cv rp cr))) @ ''/''
              @ str_int (total_records (fst (accuracy_result pd2 self2 df2 vr cv rp cr))))))) \<and>
   (\<not> strict_mode self2 \<longrightarrow>
      accuracy_validate pd2 self2 df2 vr cv rp cr
        = (snd (accuracy_result pd2 self2 df2 vr cv rp cr)
             @ [log_result (fst (accuracy_result pd2 self2 df2 vr cv rp cr))],
           Inr (fst (accuracy_result pd2 self2 df2 vr cv rp cr)))) \<and>
   (strict_mode self3 \<and> \<not> passed (fst (consistency_result pd3 self3 df3 dt uc dfm cf)) \<longrightarrow>
      consistency_validate pd3 self3 df3 dt uc dfm cf
        = (snd (consistency_result pd3 self3 df3 dt uc dfm cf)
             @ [log_result (fst (consistency_result pd3 self3 df3 dt uc dfm cf))],
           Inl (ValueError
             (''Validation failed: '' @ name self3 @ '' - consistency. Failed records: ''
              @ str_int (failed_records (fst (consistency_result pd3 self3 df3 dt uc dfm cf))) @ ''/''
              @ str_int (total_records (fst (consistency_result pd3 self3 df3 dt uc dfm cf))))))) \<and>
   (\<not> strict_mode self3 \<longrightarrow>
      consistency_validate pd3 self3 df3 dt uc dfm cf
        = (snd (consistency_result pd3 self3 df3 dt uc dfm cf)
             @ [log_result (fst (consistency_result pd3 self3 df3 dt uc dfm cf))],
           Inr (fst (consistency_result pd3 self3 df3 dt uc dfm cf)))) \<and>
   (strict_mode self4 \<and> \<not> passed (schema_result self4 df4 es allow) \<longrightarrow>
      schema_validate self4 df4 es allow
        = ([log_result (schema_result self4 df4 es allow)],
           Inl (ValueError
             (''Validation failed: '' @ name self4 @ '' - schema. Failed records: ''
              @ str_int (failed_records (schema_result self4 df4 es allow)) @ ''/''
              @ str_int (total_records (schema_result self4 df4 es allow)))))) \<and>
   (\<not> strict_mode self4 \<longrightarrow>
      schema_validate self4 df4 es allow
        = ([log_result (schema_result self4 df4 es allow)],
           Inr (schema_result self4 df4 es allow)))"
proof -
  have c: "validator_name (completeness_result self1 df1 rc nt mr) = name self1"
          "validation_type (completeness_result self1 df1 rc nt mr) = ''completeness''"
    by (simp_all add: completeness_result_def Let_def)
  have a: "validator_name (fst (accuracy_result pd2 self2 df2 vr cv rp cr)) = name self2"
          "validation_type (fst (accuracy_result pd2 self2 df2 vr cv rp cr)) = ''accuracy''"
    by (simp_all add: accuracy_result_def Let_def split_beta)
  have k: "validator_name (fst (consistency_result pd3 self3 df3 dt uc dfm cf)) = name self3"
          "validation_type (fst (consistency_result pd3 self3 df3 dt uc dfm cf)) = ''consistency''"
    by (simp_all add: consistency_result_def Let_def split_beta)
  have s: "validator_name (schema_result self4 df4 es allow) = name self4"
          "validation_type (schema_result self4 df4 es allow) = ''schema''"
    by (simp_all add: schema_result_def Let_def split_beta)
  show ?thesis
    by (simp add: completeness_validate_def accuracy_validate_def consistency_validate_def
        schema_validate_def log_raise_return_cases split_beta c a k s)
qed

text \<open>
  Instances: the four failing validations above raise in strict mode, with the messages
  spelled out, and return their results otherwise.
\<close>

theorem strict_mode_raises_after_logging_witness:
  "completeness_validate (CompletenessValidator True) df_empty [] 0 1
     = ([ValidationFailed ''completeness_validator'' ''completeness'' 0 0 1],
        Inl (ValueError
          ''Validation failed: completeness_validator - completeness. Failed records: 0/0'')) \<and>
   accuracy_validate pd_example (AccuracyValidator True) df_prices
       [(''price'', 0, 300), (''volume'', 0, 10000)] [] [] []
     = ([ValidationFailed ''accuracy_validator'' ''accuracy'' 5 1 1],
        Inl (ValueError ''Validation failed: accuracy_validator - accuracy. Failed records: 1/6'')) \<and>
   consistency_validate pd_example (ConsistencyValidator True) df_ids [] [''id''] [] []
     = ([ValidationFailed ''consistency_validator'' ''consistency'' 3 1 1],
        Inl (ValueError
          ''Validation failed: consistency_validator - consistency. Failed records: 1/4'')) \<and>
   schema_validate (SchemaValidator True) df_prices
       [(''price'', \<lparr>stype = Some ''int'', nullable = Some False\<rparr>),
        (''symbol'', \<lparr>stype = Some ''string'', nullable = None\<rparr>)] True
     = ([ValidationFailed ''schema_validator'' ''schema'' 0 3 1],
        Inl (ValueError ''Validation failed: schema_validator - schema. Failed records: 3/3'')) \<and>
   snd (completeness_validate (CompletenessValidator False) df_empty [] 0 1)
     = Inr (completeness_result (CompletenessValidator False) df_empty [] 0 1) \<and>
   snd (accuracy_validate pd_example (AccuracyValidator False) df_prices
       [(''price'', 0, 300), (''volume'', 0, 10000)] [] [] [])
     = Inr (fst (accuracy_result pd_example (AccuracyValidator False) df_prices
       [(''price'', 0, 300), (''volume'', 0, 10000)] [] [] [])) \<and>
   snd (consistency_validate pd_example (ConsistencyValidator False) df_ids [] [''id''] [] [])
     = Inr (fst (consistency_result pd_example (ConsistencyValidator False) df_ids [] [''id''] [] [])) \<and>
   snd (schema_validate (SchemaValidator False) df_prices
       [(''price'', \<lparr>stype = Some ''int'', nullable = Some False\<rparr>),
        (''symbol'', \<lparr>stype = Some ''string'', nullable = None\<rparr>)] True)
     = Inr (schema_result (SchemaValidator False) df_prices
       [(''price'', \<lparr>stype = Some ''int'', nullable = Some False\<rparr>),
        (''symbol'', \<lparr>stype = Some ''string'', nullable = None\<rparr>)] True)"
proof -
  note strict = strict_mode_raises_after_logging
    [where ?self1.0 = "CompletenessValidator True" and ?df1.0 = df_empty
       and rc = "[]" and nt = 0 and mr = 1
       and ?pd2.0 = pd_example and ?self2.0 = "AccuracyValidator True" and ?df2.0 = df_prices
       and vr = "[(''price'', 0, 300), (''volume'', 0, 10000)]"
       and cv = "[]" and rp = "[]" and cr = "[]"
       and ?pd3.0 = pd_example and ?self3.0 = "ConsistencyValidator True" and ?df3.0 = df_ids
       and dt = "[]" and uc = "[''id'']" and dfm = "[]" and cf = "[]"
       and ?self4.0 = "SchemaValidator True" and ?df4.0 = df_prices
       and es = "[(''price'', \<lparr>stype = Some ''int'', nullable = Some False\<rparr>),
                  (''symbol'', \<lparr>stype = Some ''string'', nullable = None\<rparr>)]"
       and allow = True]
  note lax = strict_mode_raises_after_logging
    [where ?self1.0 = "CompletenessValidator False" and ?df1.0 = df_empty
       and rc = "[]" and nt = 0 and mr = 1
       and ?pd2.0 = pd_example and ?self2.0 = "AccuracyValidator False" and ?df2.0 = df_prices
       and vr = "[(''price'', 0, 300), (''volume'', 0, 10000)]"
       and cv = "[]" and rp = "[]" and cr = "[]"
       and ?pd3.0 = pd_example and ?self3.0 = "ConsistencyValidator False" and ?df3.0 = df_ids
       and dt = "[]" and uc = "[''id'']" and dfm = "[]" and cf = "[]"
       and ?self4.0 = "SchemaValidator False" and ?df4.0 = df_prices
       and es = "[(''price'', \<lparr>stype = Some ''int'', nullable = Some False\<rparr>),
                  (''symbol'', \<lparr>stype = Some ''string'', nullable = None\<rparr>)]"
       and allow = True]
  have names: "name (CompletenessValidator True) = ''completeness_validator''"
    "name (AccuracyValidator True) = ''accuracy_validator''"
    "name (ConsistencyValidator True) = ''consistency_validator''"
    "name (SchemaValidator True) = ''schema_validator''"
    "strict_mode (CompletenessValidator b) = b" "strict_mode (AccuracyValidator b) = b"
    "strict_mode (ConsistencyValidator b) = b" "strict_mode (SchemaValidator b) = b" for b
    by (simp_all add: CompletenessValidator_def AccuracyValidator_def ConsistencyValidator_def
        SchemaValidator_def)
  show ?thesis
    using strict lax
    by (simp add: examples names log_result_def str_int_def)
qed

lemma custom_rule_step_logs:
  "custom_rule_step df r (st, logs)
     = (fst (custom_rule_step df r (st, [])), logs @ snd (custom_rule_step df r (st, [])))"
  by (cases r; cases st)
     (auto simp: custom_rule_step_def Let_def split: option.splits sum.splits)

lemma custom_rule_fold_logs:
  "fold (custom_rule_step df) rs (st, logs)
     = (fst (fold (custom_rule_step df) rs (st, [])),
        logs @ snd (fold (custom_rule_step df) rs (st, [])))"
proof (induction rs arbitrary: st logs)
  case Nil
  then show ?case by simp
next
  case (Cons r rs)
  obtain st1 l1 where s1: "custom_rule_step df r (st, []) = (st1, l1)"
    by (cases "custom_rule_step df r (st, [])")
  have s2: "custom_rule_step df r (st, logs) = (st1, logs @ l1)"
    using custom_rule_step_logs [of df r st logs] s1 by simp
  show ?case
    using Cons.IH [of st1 "logs @ l1"] Cons.IH [of st1 l1] by (simp add: s1 s2)
qed

lemma custom_rule_step_raises:
  assumes "\<forall>col. get_column df c = Some col \<longrightarrow> f (cells col) = Inl e"
  shows "fst (custom_rule_step df (c, nm, f) (st, logs)) = st"
  using assms by (cases st) (auto simp: custom_rule_step_def Let_def split: option.splits)

lemma custom_rule_fold_skip:
  assumes "\<forall>col. get_column df c = Some col \<longrightarrow> f (cells col) = Inl e"
  shows "fst (fold (custom_rule_step df) (rs1 @ (c, nm, f) # rs2) (st, logs))
           = fst (fold (custom_rule_step df) (rs1 @ rs2) (st, logs))"
proof -
  obtain st1 l1 where a: "fold (custom_rule_step df) rs1 (st, logs) = (st1, l1)"
    by (cases "fold (custom_rule_step df) rs1 (st, logs)")
  obtain l2 where b: "custom_rule_step df (c, nm, f) (st1, l1) = (st1, l2)"
    using custom_rule_step_raises [OF assms, of nm st1 l1]
    by (cases "custom_rule_step df (c, nm, f) (st1, l1)") simp
  show ?thesis
    using custom_rule_fold_logs [of df rs2 st1 l2] custom_rule_fold_logs [of df rs2 st1 l1]
    by (simp add: a b)
qed

lemma cross_field_step_logs:
  "cross_field_step df r (st, logs)
     = (fst (cross_field_step df r (st, [])), logs @ snd (cross_field_step df r (st, [])))"
  by (cases r; cases st)
     (auto simp: cross_field_step_def Let_def split: option.splits sum.splits)

lemma cross_field_fold_logs:
  "fold (cross_field_step df) rs (st, logs)
     = (fst (fold (cross_field_step df) rs (st, [])),
        logs @ snd (fold (cross_field_step df) rs (st, [])))"
proof (induction rs arbitrary: st logs)
  case Nil
  then show ?case by simp
next
  case (Cons r rs)
  obtain st1 l1 where s1: "cross_field_step df r (st, []) = (st1, l1)"
    by (cases "cross_field_step df r (st, [])")
  have s2: "cross_field_step df r (st, logs) = (st1, logs @ l1)"
    using cross_field_step_logs [of df r st logs] s1 by simp
  show ?case
    using Cons.IH [of st1 "logs @ l1"] Cons.IH [of st1 l1] by (simp add: s1 s2)
qed

lemma cross_field_step_raises:
  assumes "\<forall>c1 c2. get_column df a = Some c1 \<and> get_column df b = Some c2
             \<longrightarrow> g (cells c1) (cells c2) = Inl e"
  shows "fst (cross_field_step df (a, b, g) (st, logs)) = st"
  using assms by (cases st) (auto simp: cross_field_step_def Let_def split: option.splits)

lemma cross_field_fold_skip:
  assumes "\<forall>c1 c2. get_column df a = Some c1 \<and> get_column df b = Some c2
             \<longrightarrow> g (cells c1) (cells c2) = Inl e"
  shows "fst (fold (cross_field_step df) (rs1 @ (a, b, g) # rs2) (st, logs))
           = fst (fold (cross_field_step df) (rs1 @ rs2) (st, logs))"
proof -
  obtain st1 l1 where x: "fold (cross_field_step df) rs1 (st, logs) = (st1, l1)"
    by (cases "fold (cross_field_step df) rs1 (st, logs)")
  obtain l2 where y: "cross_field_step df (a, b, g) (st1, l1) = (st1, l2)"
    using cross_field_step_raises [OF assms, of st1 l1]
    by (cases "cross_field_step df (a, b, g) (st1, l1)") simp
  show ?thesis
    using cross_field_fold_logs [of df rs2 st1 l2] cross_field_fold_logs [of df rs2 st1 l1]
    by (simp add: x y)
qed

lemma accuracy_verdict_skip:
  assumes "\<forall>col. get_column df c = Some col \<longrightarrow> f (cells col) = Inl e"
  shows "verdict (fst (accuracy_result pd self df vr cv rp (rs1 @ (c, nm, f) # rs2)))
           = verdict (fst (accuracy_result pd self df vr cv rp (rs1 @ rs2)))"
  using custom_rule_fold_skip [OF assms]
  by (simp add: accuracy_result_def verdict_def Let_def split_beta)

lemma consistency_verdict_skip:
  assumes "\<forall>c1 c2. get_column df a = Some c1 \<and> get_column df b = Some c2
             \<longrightarrow> g (cells c1) (cells c2) = Inl e"
  shows "verdict (fst (consistency_result pd self df dt uc dfm (rs1 @ (a, b, g) # rs2)))
           = verdict (fst (consistency_result pd self df dt uc dfm (rs1 @ rs2)))"
  using cross_field_fold_skip [OF assms]
  by (simp add: consistency_result_def verdict_def Let_def split_beta)

lemma log_raise_return_verdict:
  assumes "verdict r = verdict r'" "validator_name r = validator_name r'"
    "validation_type r = validation_type r'"
  shows "map_sum id verdict (snd (log_raise_return self logs r))
           = map_sum id verdict (snd (log_raise_return self logs' r'))"
  using assms by (auto simp: log_raise_return_cases verdict_def)

lemma custom_rule_fold_logged:
  assumes "get_column df c = Some col" "f (cells col) = Inl e"
  shows "CustomRuleError c e \<in> set (snd (fold (custom_rule_step df) (rs1 @ (c, nm, f) # rs2) (st, logs)))"
proof -
  obtain st1 l1 where a: "fold (custom_rule_step df) rs1 (st, logs) = (st1, l1)"
    by (cases "fold (custom_rule_step df) rs1 (st, logs)")
  have b: "custom_rule_step df (c, nm, f) (st1, l1) = (st1, l1 @ [CustomRuleError c e])"
    using assms by (cases st1) (simp add: custom_rule_step_def)
  show ?thesis
    using custom_rule_fold_logs [of df rs2 st1 "l1 @ [CustomRuleError c e]"]
    by (simp add: a b)
qed

lemma cross_field_fold_logged:
  assumes "get_column df a = Some c1" "get_column df b = Some c2" "g (cells c1) (cells c2) = Inl e"
  shows "CrossFieldValidationError a b e
           \<in> set (snd (fold (cross_field_step df) (rs1 @ (a, b, g) # rs2) (st, logs)))"
proof -
  obtain st1 l1 where x: "fold (cross_field_step df) rs1 (st, logs) = (st1, l1)"
    by (cases "fold (cross_field_step df) rs1 (st, logs)")
  have y: "cross_field_step df (a, b, g) (st1, l1) = (st1, l1 @ [CrossFieldValidationError a b e])"
    using assms by (cases st1) (simp add: cross_field_step_def)
  show ?thesis
    using cross_field_fold_logs [of df rs2 st1 "l1 @ [CrossFieldValidationError a b e]"]
    by (simp add: x y)
qed

lemma accuracy_names:
  "validator_name (fst (accuracy_result pd self df vr cv rp cr)) = name self"
  "validation_type (fst (accuracy_result pd self df vr cv rp cr)) = ''accuracy''"
  by (simp_all add: accuracy_result_def Let_def split_beta)

lemma consistency_names:
  "validator_name (fst (consistency_result pd self df dt uc dfm cf)) = name self"
  "validation_type (fst (consistency_result pd self df dt uc dfm cf)) = ''consistency''"
  by (simp_all add: consistency_result_def Let_def split_beta)

subsection \<open>Predicates that raise\<close>

text \<open>
  Claim C10. A custom rule of the accuracy validator, or a comparison of the consistency
  validator, that raises on the column(s) it is given is skipped: the verdict of the result
  (passed flag, the three counts, the error entries) and the outcome of \<open>validate\<close> (the
  verdict, or the exception of strict mode) are those of the same call without that rule;
  the exception is written to the log when the rule's columns exist; and a call whose only
  rule raises returns a passing result with all counts zero, in strict mode too.
\<close>

theorem raising_predicate_is_skipped:
  assumes "\<forall>col. get_column df c = Some col \<longrightarrow> f (cells col) = Inl e"
      and "\<forall>c1 c2. get_column df' a = Some c1 \<and> get_column df' b = Some c2
             \<longrightarrow> g (cells c1) (cells c2) = Inl e'"
  shows "verdict (fst (accuracy_result pd self df vr cv rp (rs1 @ (c, nm, f) # rs2)))
           = verdict (fst (accuracy_result pd self df vr cv rp (rs1 @ rs2))) \<and>
         map_sum id verdict (snd (accuracy_validate pd self df vr cv rp (rs1 @ (c, nm, f) # rs2)))
           = map_sum id verdict (snd (accuracy_validate pd self df vr cv rp (rs1 @ rs2))) \<and>
         (get_column df c \<noteq> None \<longrightarrow>
            CustomRuleError c e
              \<in> set (fst (accuracy_validate pd self df vr cv rp (rs1 @ (c, nm, f) # rs2)))) \<and>
         map_sum id verdict (snd (accuracy_validate pd self df [] [] [] [(c, nm, f)]))
           = Inr (True, 0, 0, 0, []) \<and>
         verdict (fst (consistency_result pd' self' df' dt uc dfm (qs1 @ (a, b, g) # qs2)))
           = verdict (fst (consistency_result pd' self' df' dt uc dfm (qs1 @ qs2))) \<and>
         map_sum id verdict
             (snd (consistency_validate pd' self' df' dt uc dfm (qs1 @ (a, b, g) # qs2)))
           = map_sum id verdict (snd (consistency_validate pd' self' df' dt uc dfm (qs1 @ qs2))) \<and>
         (get_column df' a \<noteq> None \<and> get_column df' b \<noteq> None \<longrightarrow>
            CrossFieldValidationError a b e'
              \<in> set (fst (consistency_validate pd' self' df' dt uc dfm (qs1 @ (a, b, g) # qs2)))) \<and>
         map_sum id verdict (snd (consistency_validate pd' self' df' [] [] [] [(a, b, g)]))
           = Inr (True, 0, 0, 0, [])"
proof -
  note av = accuracy_verdict_skip [OF assms(1)]
  note cv' = consistency_verdict_skip [OF assms(2)]
  have a2: "map_sum id verdict (snd (accuracy_validate pd self df vr cv rp (rs1 @ (c, nm, f) # rs2)))
           = map_sum id verdict (snd (accuracy_validate pd self df vr cv rp (rs1 @ rs2)))"
    unfolding accuracy_validate_def split_beta Let_def
    by (rule log_raise_return_verdict) (simp_all add: av accuracy_names)
  have a3: "get_column df c \<noteq> None \<longrightarrow>
            CustomRuleError c e
              \<in> set (fst (accuracy_validate pd self df vr cv rp (rs1 @ (c, nm, f) # rs2)))"
  proof
    assume "get_column df c \<noteq> None"
    then obtain col where col: "get_column df c = Some col" by blast
    with assms(1) have "f (cells col) = Inl e" by simp
    from custom_rule_fold_logged [of df c col f e, OF col this]
    have "CustomRuleError c e
            \<in> set (snd (accuracy_result pd self df vr cv rp (rs1 @ (c, nm, f) # rs2)))"
      by (simp add: accuracy_result_def split_beta Let_def)
    then show "CustomRuleError c e
              \<in> set (fst (accuracy_validate pd self df vr cv rp (rs1 @ (c, nm, f) # rs2)))"
      by (simp add: accuracy_validate_def split_beta log_raise_return_cases)
  qed
  have a4: "map_sum id verdict (snd (accuracy_validate pd self df [] [] [] [(c, nm, f)]))
           = Inr (True, 0, 0, 0, [])"
    using custom_rule_step_raises [OF assms(1), of nm "([], 0, 0)" "[]"]
    by (simp add: accuracy_validate_def accuracy_result_def split_beta Let_def
        log_raise_return_cases verdict_def)
  have c2: "map_sum id verdict
             (snd (consistency_validate pd' self' df' dt uc dfm (qs1 @ (a, b, g) # qs2)))
           = map_sum id verdict (snd (consistency_validate pd' self' df' dt uc dfm (qs1 @ qs2)))"
    unfolding consistency_validate_def split_beta Let_def
    by (rule log_raise_return_verdict) (simp_all add: cv' consistency_names)
  have c3: "get_column df' a \<noteq> None \<and> get_column df' b \<noteq> None \<longrightarrow>
            CrossFieldValidationError a b e'
              \<in> set (fst (consistency_validate pd' self' df' dt uc dfm (qs1 @ (a, b, g) # qs2)))"
  proof
    assume "get_column df' a \<noteq> None \<and> get_column df' b \<noteq> None"
    then obtain c1 c2 where cols: "get_column df' a = Some c1" "get_column df' b = Some c2"
      by blast
    with assms(2) have "g (cells c1) (cells c2) = Inl e'" by simp
    from cross_field_fold_logged [of df' a c1 b c2 g e', OF cols this]
    have "CrossFieldValidationError a b e'
            \<in> set (snd (consistency_result pd' self' df' dt uc dfm (qs1 @ (a, b, g) # qs2)))"
      by (simp add: consistency_result_def split_beta Let_def)
    then show "CrossFieldValidationError a b e'
              \<in> set (fst (consistency_validate pd' self' df' dt uc dfm (qs1 @ (a, b, g) # qs2)))"
      by (simp add: consistency_validate_def split_beta log_raise_return_cases)
  qed
  have c4: "map_sum id verdict (snd (consistency_validate pd' self' df' [] [] [] [(a, b, g)]))
           = Inr (True, 0, 0, 0, [])"
    using cross_field_step_raises [OF assms(2), of "([], 0, 0)" "[]"]
    by (simp add: consistency_validate_def consistency_result_def split_beta Let_def
        log_raise_return_cases verdict_def)
  show ?thesis
    using av cv' a2 a3 a4 c2 c3 c4 by blast
qed

text \<open>
  Instances: a raising rule alone passes in strict mode, and next to a failing range or
  uniqueness check it leaves that check's verdict as it is.
\<close>

theorem raising_predicate_is_skipped_witness:
  "accuracy_validate pd_example (AccuracyValidator True) df_one_row [] [] []
       [(''price'', ''positive'', raising_rule)]
     = ([CustomRuleError ''price'' (OtherError ''bad rule''),
         ValidationPassed ''accuracy_validator'' ''accuracy'' 0 0],
        Inr \<lparr>validator_name = ''accuracy_validator'', validation_type = ''accuracy'',
             passed = True, passed_records = 0, failed_records = 0, total_records = 0,
             error_details = [], metadata = [(''checks_performed'', 1)]\<rparr>) \<and>
   map_sum id verdict (snd (accuracy_validate pd_example (AccuracyValidator False) df_prices
       [(''price'', 0, 300), (''volume'', 0, 10000)] [] []
       [(''price'', ''positive'', raising_rule)]))
     = Inr (False, 5, 1, 6, [ValueRange ''price'' 0 300 1 [Some 500]]) \<and>
   consistency_validate pd_example (ConsistencyValidator True) df_ids [] [] []
       [(''id'', ''value'', raising_comparison)]
     = ([CrossFieldValidationError ''id'' ''value'' (OtherError ''bad comparison''),
         ValidationPassed ''consistency_validator'' ''consistency'' 0 0],
        Inr \<lparr>validator_name = ''consistency_validator'', validation_type = ''consistency'',
             passed = True, passed_records = 0, failed_records = 0, total_records = 0,
             error_details = [],
             metadata = [(''data_type_checks'', 0), (''uniqueness_checks'', 0),
                         (''date_format_checks'', 0), (''cross_field_checks'', 1)]\<rparr>) \<and>
   map_sum id verdict (snd (consistency_validate pd_example (ConsistencyValidator False) df_ids
       [] [''id''] [] [(''id'', ''value'', raising_comparison)]))
     = Inr (False, 3, 1, 4, [Uniqueness ''id'' 1])"
proof -
  have h1: "\<forall>col. get_column df_prices ''price'' = Some col
              \<longrightarrow> raising_rule (cells col) = Inl (OtherError ''bad rule'')"
    by (simp add: raising_rule_def)
  have h2: "\<forall>c1 c2. get_column df_ids ''id'' = Some c1 \<and> get_column df_ids ''value'' = Some c2
              \<longrightarrow> raising_comparison (cells c1) (cells c2) = Inl (OtherError ''bad comparison'')"
    by (simp add: raising_comparison_def)
  have e1: "accuracy_validate pd_example (AccuracyValidator True) df_one_row [] [] []
       [(''price'', ''positive'', raising_rule)]
     = ([CustomRuleError ''price'' (OtherError ''bad rule''),
         ValidationPassed ''accuracy_validator'' ''accuracy'' 0 0],
        Inr \<lparr>validator_name = ''accuracy_validator'', validation_type = ''accuracy'',
             passed = True, passed_records = 0, failed_records = 0, total_records = 0,
             error_details = [], metadata = [(''checks_performed'', 1)]\<rparr>)"
    by (simp add: validate_defs accuracy_result_def custom_rule_step_def get_column_def
        df_one_row_def raising_rule_def Let_def)
  have e2: "consistency_validate pd_example (ConsistencyValidator True) df_ids [] [] []
       [(''id'', ''value'', raising_comparison)]
     = ([CrossFieldValidationError ''id'' ''value'' (OtherError ''bad comparison''),
         ValidationPassed ''consistency_validator'' ''consistency'' 0 0],
        Inr \<lparr>validator_name = ''consistency_validator'', validation_type = ''consistency'',
             passed = True, passed_records = 0, failed_records = 0, total_records = 0,
             error_details = [],
             metadata = [(''data_type_checks'', 0), (''uniqueness_checks'', 0),
                         (''date_format_checks'', 0), (''cross_field_checks'', 1)]\<rparr>)"
    by (simp add: validate_defs consistency_result_def cross_field_step_def get_column_def
        df_ids_def raising_comparison_def Let_def)
  have r1: "map_sum id verdict (snd (accuracy_validate pd_example (AccuracyValidator False)
       df_prices [(''price'', 0, 300), (''volume'', 0, 10000)] [] [] []))
     = Inr (False, 5, 1, 6, [ValueRange ''price'' 0 300 1 [Some 500]])"
    by (simp add: validate_defs examples verdict_def)
  have r2: "map_sum id verdict (snd (consistency_validate pd_example (ConsistencyValidator False)
       df_ids [] [''id''] [] []))
     = Inr (False, 3, 1, 4, [Uniqueness ''id'' 1])"
    by (simp add: validate_defs examples verdict_def)
  show ?thesis
    using raising_predicate_is_skipped [OF h1 h2,
        where pd = pd_example and self = "AccuracyValidator False"
          and vr = "[(''price'', 0, 300), (''volume'', 0, 10000)]" and cv = "[]" and rp = "[]"
          and ?rs1.0 = "[]" and ?rs2.0 = "[]" and nm = "''positive''"
          and pd' = pd_example and self' = "ConsistencyValidator False"
          and dt = "[]" and uc = "[''id'']" and dfm = "[]" and ?qs1.0 = "[]" and ?qs2.0 = "[]"]
    by (simp add: e1 e2 r1 r2)
qed


section \<open>Properties of the warehouse loader\<close>

subsection \<open>Pages\<close>

text \<open>The pages of a positive page size cover the rows, in order, each once.\<close>

lemma concat_paginate: "0 < n \<Longrightarrow> concat (paginate xs n) = xs"
proof (induction xs n rule: paginate.induct)
  case (1 xs n)
  show ?case
  proof (cases "xs = []")
    case True
    then show ?thesis by (simp add: paginate.simps)
  next
    case False
    with "1.prems" have "concat (paginate (drop n xs) n) = drop n xs"
      using "1.IH" by simp
    with False "1.prems" show ?thesis
      by (subst paginate.simps) simp
  qed
qed

lemma paginate_pages: "0 < n \<Longrightarrow> p \<in> set (paginate xs n) \<Longrightarrow> p \<noteq> [] \<and> length p \<le> n"
proof (induction xs n rule: paginate.induct)
  case (1 xs n)
  show ?case
  proof (cases "xs = []")
    case True
    with "1.prems" show ?thesis by (simp add: paginate.simps)
  next
    case False
    from "1.prems"(2) False "1.prems"(1)
    have "p = take n xs \<or> p \<in> set (paginate (drop n xs) n)"
      by (subst (asm) paginate.simps) auto
    then show ?thesis
      using False "1.prems"(1) "1.IH" by auto
  qed
qed

lemma five_rows_values:
  "map (\<lambda>row. map (\<lambda>col. row_get row col) (map fst (hd five_rows))) five_rows
     = [[Some 1], [Some 2], [Some 3], [Some 4], [Some 5]]"
  by (simp add: five_rows_def row_get_def)

subsection \<open>Bulk insert in batches\<close>

text \<open>
  Claim C6. Five rows with \<open>batch_size = 2\<close>, on a table without constraints: the rows
  go to the database in pages of two, two and one, each row once, and all five are in the
  table afterwards. But \<open>bulk_insert\<close> returns \<open>cursor.rowcount\<close>, which after
  \<open>execute_batch\<close> is the count of the last statement executed, not a total: it
  returns 1, where its docstring promises the number of rows inserted.
\<close>

theorem bulk_insert_five_rows_batch_two:
  "bulk_insert 10000 table_engine five_rows ''t'' (Some 2) []
     = (Inr 1, [[Some 1], [Some 2], [Some 3], [Some 4], [Some 5]]) \<and>
   map_sum id pages
     (execute_batch table_engine sql [[Some 1], [Some 2], [Some 3], [Some 4], [Some 5]] 2
        \<lparr>rowcount = - 1, pages = [], db = []\<rparr>)
     = Inr [[[Some 1], [Some 2]], [[Some 3], [Some 4]], [[Some 5]]]"
  by (simp add: bulk_insert_def db_bulk_insert_def with_connection_def execute_batch_def
      cursor_execute_def table_engine_def five_rows_def row_get_def Let_def paginate.simps)

lemma run_statements_error:
  "run_statements eng sql page st = Inl e \<Longrightarrow> \<exists>args d'. eng sql args d' = Inl e"
proof (induction page arbitrary: st)
  case Nil
  then show ?case by simp
next
  case (Cons args rest)
  obtain n d where st: "st = (n, d)" by (cases st)
  show ?case
  proof (cases "eng sql args d")
    case (Inl e')
    with Cons.prems st show ?thesis by auto
  next
    case (Inr r)
    with Cons.prems st Cons.IH show ?thesis by (cases r) auto
  qed
qed

lemma cursor_execute_error:
  "cursor_execute eng sql page cur = Inl e \<Longrightarrow>
     (\<exists>args d'. eng sql args d' = Inl e) \<or>
     (page = [] \<and> e = OtherError ''cannot execute an empty query'')"
  using run_statements_error [of eng sql page "(rowcount cur, db cur)" e]
  by (auto simp: cursor_execute_def split: if_splits sum.splits)

lemma execute_pages_error:
  "execute_pages eng sql ps cur = Inl e \<Longrightarrow> [] \<notin> set ps \<Longrightarrow> \<exists>args d'. eng sql args d' = Inl e"
proof (induction ps arbitrary: cur)
  case Nil
  then show ?case by simp
next
  case (Cons page rest)
  show ?case
  proof (cases "cursor_execute eng sql page cur")
    case (Inl e')
    with Cons.prems cursor_execute_error [of eng sql page cur e'] show ?thesis by auto
  next
    case (Inr cur')
    with Cons.prems Cons.IH [of cur'] show ?thesis by auto
  qed
qed

lemma execute_batch_error:
  assumes "execute_batch eng sql argslist page_size cur = Inl e"
  shows "(\<exists>args d'. eng sql args d' = Inl e) \<or>
         (page_size \<le> 0 \<and> e = OtherError ''cannot execute an empty query'')"
proof (cases "page_size \<le> 0")
  case True
  with assms show ?thesis by (simp add: execute_batch_def cursor_execute_def)
next
  case False
  then have "[] \<notin> set (paginate argslist (nat page_size))"
    using paginate_pages [of "nat page_size" "[]" argslist] by auto
  with assms False show ?thesis
    using execute_pages_error [of eng sql "paginate argslist (nat page_size)" cur e]
    by (simp add: execute_batch_def)
qed

lemma upsert_cases:
  "upsert cfg eng df t cc uc d =
     (case execute_batch eng (upsert_query df t cc (upsert_update_columns df cc uc))
             (map (\<lambda>row. map (\<lambda>col. row_get row col) (column_names df)) (to_dict_records df))
             cfg \<lparr>rowcount = - 1, pages = [], db = d\<rparr> of
        Inl e \<Rightarrow> (Inl e, d)
      | Inr cur \<Rightarrow> (Inr (rowcount cur), db cur))"
  by (simp add: upsert_def with_connection_def Let_def split: sum.splits)

subsection \<open>Upsert\<close>

text \<open>
  Claim C7, as the code has it. Without \<open>update_columns\<close> the updated columns are the
  dataset's columns that are not conflict columns, in the dataset's order. The conflict
  columns are not checked: whatever they are (the empty list included), a dataset without
  rows makes \<open>upsert\<close> return \<open>-1\<close> with no statement sent, and an exception that
  \<open>upsert\<close> raises is one that the database raised on the statement built from them
  (or the driver's refusal of an empty page when the configured batch size is not
  positive).
\<close>

theorem upsert_sends_statement_unchecked:
  "upsert_update_columns df conflict_columns None
     = filter (\<lambda>col. col \<notin> set conflict_columns) (column_names df) \<and>
   set (upsert_update_columns df conflict_columns None)
     = set (column_names df) - set conflict_columns \<and>
   upsert cfg eng df table_name conflict_columns None d
     = upsert cfg eng df table_name conflict_columns
         (Some (filter (\<lambda>col. col \<notin> set conflict_columns) (column_names df))) d \<and>
   (nrows df = 0 \<and> 0 < cfg \<longrightarrow>
      upsert cfg eng df table_name conflict_columns update_columns d = (Inr (- 1), d)) \<and>
   (fst (upsert cfg eng df table_name conflict_columns update_columns d) = Inl e \<longrightarrow>
      (\<exists>args d'.
         eng (upsert_query df table_name conflict_columns
                (upsert_update_columns df conflict_columns update_columns)) args d' = Inl e) \<or>
      (cfg \<le> 0 \<and> e = OtherError ''cannot execute an empty query''))"
proof -
  have a: "upsert_update_columns df conflict_columns None
     = filter (\<lambda>col. col \<notin> set conflict_columns) (column_names df)"
    by (simp add: upsert_update_columns_def)
  have b: "set (upsert_update_columns df conflict_columns None)
     = set (column_names df) - set conflict_columns"
    by (auto simp: upsert_update_columns_def)
  have c: "upsert cfg eng df table_name conflict_columns None d
     = upsert cfg eng df table_name conflict_columns
         (Some (filter (\<lambda>col. col \<notin> set conflict_columns) (column_names df))) d"
    by (simp add: upsert_cases upsert_update_columns_def)
  have d: "nrows df = 0 \<and> 0 < cfg \<longrightarrow>
      upsert cfg eng df table_name conflict_columns update_columns d = (Inr (- 1), d)"
    by (simp add: upsert_cases to_dict_records_def execute_batch_def paginate.simps)
  have e: "fst (upsert cfg eng df table_name conflict_columns update_columns d) = Inl e \<longrightarrow>
      (\<exists>args d'.
         eng (upsert_query df table_name conflict_columns
                (upsert_update_columns df conflict_columns update_columns)) args d' = Inl e) \<or>
      (cfg \<le> 0 \<and> e = OtherError ''cannot execute an empty query'')"
  proof
    assume f: "fst (upsert cfg eng df table_name conflict_columns update_columns d) = Inl e"
    let ?q = "upsert_query df table_name conflict_columns
                (upsert_update_columns df conflict_columns update_columns)"
    let ?v = "map (\<lambda>row. map (\<lambda>col. row_get row col) (column_names df)) (to_dict_records df)"
    from f have "execute_batch eng ?q ?v cfg \<lparr>rowcount = - 1, pages = [], db = d\<rparr> = Inl e"
      by (simp add: upsert_cases split: sum.splits)
    from execute_batch_error [OF this]
    show "(\<exists>args d'. eng ?q args d' = Inl e) \<or>
          (cfg \<le> 0 \<and> e = OtherError ''cannot execute an empty query'')" .
  qed
  from a b c d e show ?thesis by blast
qed

text \<open>
  With an empty list of conflict columns \<open>upsert\<close> raises no error of its own: on a
  dataset without rows it returns \<open>-1\<close>; otherwise the statement goes to the database,
  and the outcome is the database's, a refusal or a write.
\<close>

theorem upsert_empty_conflict_columns_not_refused:
  "upsert 10000 table_engine df_no_rows ''t'' [] None [] = (Inr (- 1), []) \<and>
   upsert 10000 refusing_engine df_prices ''t'' [] None [] = (Inl (OtherError ''syntax error''), []) \<and>
   upsert 10000 table_engine df_prices ''t'' [] None []
     = (Inr 1, [[Some 150, Some 1000], [Some 500, Some 2000], [Some 180, Some 1500]])"
  by (simp add: upsert_cases to_dict_records_def execute_batch_def paginate.simps
      cursor_execute_def table_engine_def refusing_engine_def df_no_rows_def df_prices_def
      column_names_def row_get_def cell_at_def upt_rec)

text \<open>Instances, with no conflict columns: a dataset without rows, and a database that refuses.\<close>

theorem upsert_sends_statement_unchecked_witness:
  "nrows df_no_rows = 0 \<and> (0::int) < 10000 \<and>
   upsert 10000 table_engine df_no_rows ''t'' [] None [] = (Inr (- 1), []) \<and>
   fst (upsert 10000 refusing_engine df_prices ''t'' [] None []) = Inl (OtherError ''syntax error'') \<and>
   (\<exists>args d'.
      refusing_engine (upsert_query df_prices ''t'' [] (upsert_update_columns df_prices [] None))
        args d' = Inl (OtherError ''syntax error'')) \<and>
   upsert_update_columns df_prices [''price''] None = [''volume'']"
proof -
  have f: "fst (upsert 10000 refusing_engine df_prices ''t'' [] None []) = Inl (OtherError ''syntax error'')"
    by (simp add: upsert_cases to_dict_records_def execute_batch_def paginate.simps
      cursor_execute_def refusing_engine_def df_prices_def
      column_names_def row_get_def cell_at_def upt_rec)
  have n: "nrows df_no_rows = 0" by (simp add: df_no_rows_def)
  have u: "upsert_update_columns df_prices [''price''] None = [''volume'']"
    by (simp add: upsert_update_columns_def column_names_def df_prices_def)
  have r1: "upsert 10000 table_engine df_no_rows ''t'' [] None [] = (Inr (- 1), [])"
    using upsert_sends_statement_unchecked
            [of df_no_rows "[]" 10000 table_engine "''t''" "[]" None "OtherError ''syntax error''",
              THEN conjunct2, THEN conjunct2, THEN conjunct2, THEN conjunct1] n
    by simp
  have r2: "\<exists>args d'.
      refusing_engine (upsert_query df_prices ''t'' [] (upsert_update_columns df_prices [] None))
        args d' = Inl (OtherError ''syntax error'')"
    using upsert_sends_statement_unchecked
            [of df_prices "[]" 10000 refusing_engine "''t''" "[]" None "OtherError ''syntax error''",
              THEN conjunct2, THEN conjunct2, THEN conjunct2, THEN conjunct2] f
    by simp
  from r1 r2 f n u show ?thesis by simp
qed


end
